theory Spec2Isabelle
  imports Complex_Main "HOL-Library.Sublist" "HOL-Library.Multiset"
begin

section \<open>JavaScript values\<close>

text \<open>
  The values the two source files pass around: the results of \<open>JSON.parse\<close>, the
  arguments of the indicator methods, and \<open>Date\<close> objects. A plain object is the list
  of its own properties in key-enumeration order (the order of \<open>Object.keys\<close> and of
  \<open>for ... in\<close>). Numbers are rationals; \<open>JNaN\<close> is not-a-number.
\<close>

datatype jsdate = Date int | InvalidDate
  \<comment> \<open>a \<open>Date\<close> object: its time value in milliseconds, or Invalid Date\<close>

datatype jsval =
    JUndefined
  | JNull
  | JBool bool
  | JNum rat
  | JNaN
  | JStr string
  | JDate jsdate
  | JArr "jsval list"
  | JObj "(string \<times> jsval) list"

datatype exn = SyntaxError | TypeError

fun digit_char :: "nat \<Rightarrow> char" where
  "digit_char n = char_of (48 + n)"

fun show_nat :: "nat \<Rightarrow> string" where
  "show_nat n = (if n < 10 then [digit_char n] else show_nat (n div 10) @ [digit_char (n mod 10)])"

text \<open>
  The own enumerable properties of a value, in enumeration order: those of an object,
  the index properties of an array or of a string, none for the other values.
  Inherited members and the non-enumerable \<open>length\<close> are not modelled: no call in the
  two files reads one.
\<close>

fun own_props :: "jsval \<Rightarrow> (string \<times> jsval) list" where
  "own_props (JObj kvs) = kvs"
| "own_props (JArr xs) = zip (map show_nat [0..<length xs]) xs"
| "own_props (JStr s) = zip (map show_nat [0..<length s]) (map (\<lambda>c. JStr [c]) s)"
| "own_props v = []"

definition nullish :: "jsval \<Rightarrow> bool" where
  "nullish v = (v = JNull \<or> v = JUndefined)"

definition Object_keys :: "jsval \<Rightarrow> exn + string list" where
  \<comment> \<open>\<open>Object.keys(v)\<close>: a TypeError on \<open>null\<close> and \<open>undefined\<close>\<close>
  "Object_keys v = (if nullish v then Inl TypeError else Inr (map fst (own_props v)))"

definition own_get :: "jsval \<Rightarrow> string \<Rightarrow> jsval" where
  \<comment> \<open>\<open>v[k]\<close> for a \<open>v\<close> that is neither \<open>null\<close> nor \<open>undefined\<close>: \<open>undefined\<close>
      for a missing property\<close>
  "own_get v k = (case map_of (own_props v) k of Some x \<Rightarrow> x | None \<Rightarrow> JUndefined)"

definition get_prop :: "jsval \<Rightarrow> string \<Rightarrow> exn + jsval" where
  \<comment> \<open>\<open>v[k]\<close>: a TypeError on \<open>null\<close> and \<open>undefined\<close>\<close>
  "get_prop v k = (if nullish v then Inl TypeError else Inr (own_get v k))"

fun set_own :: "(string \<times> jsval) list \<Rightarrow> string \<Rightarrow> jsval \<Rightarrow> (string \<times> jsval) list" where
  \<comment> \<open>\<open>o[k] = v\<close> on the property list: an existing key keeps its place, a new one goes
      last (the keys the source assigns are names, never array indices)\<close>
  "set_own [] k v = [(k, v)]"
| "set_own ((k', v') # kvs) k v = (if k' = k then (k, v) # kvs else (k', v') # set_own kvs k v)"

definition truthy :: "jsval \<Rightarrow> bool" where
  "truthy v =
     (case v of JUndefined \<Rightarrow> False | JNull \<Rightarrow> False | JBool b \<Rightarrow> b | JNum r \<Rightarrow> r \<noteq> 0
      | JNaN \<Rightarrow> False | JStr s \<Rightarrow> s \<noteq> [] | JDate d \<Rightarrow> True | JArr xs \<Rightarrow> True | JObj kvs \<Rightarrow> True)"

section \<open>Promises\<close>

text \<open>
  What a promise built by the source ends as, with the value it is rejected with.
  \<open>Uncaught\<close> is an exception thrown inside a \<open>request\<close> callback, outside every
  promise executor and \<open>then\<close>: neither \<open>resolve\<close> nor \<open>reject\<close> is called, the
  promise stays pending and the exception leaves the callback.
\<close>

datatype 'c rejection =
    Cause 'c  \<comment> \<open>the transport's own error object\<close>
  | LibraryError string
  | Body string  \<comment> \<open>the raw body of a response whose status is not 200\<close>
  | Thrown exn  \<comment> \<open>an exception thrown inside a \<open>then\<close> callback\<close>

datatype ('r, 'a) promise = Resolved 'a | Rejected 'r | Uncaught exn

definition then_promise ::
  "('c rejection, 'a) promise \<Rightarrow> ('a \<Rightarrow> exn + 'b) \<Rightarrow> ('c rejection, 'b) promise" where
  \<comment> \<open>\<open>p.then(f)\<close>: a throwing \<open>f\<close> rejects the new promise\<close>
  "then_promise p f =
     (case p of
        Resolved a \<Rightarrow> (case f a of Inl e \<Rightarrow> Rejected (Thrown e) | Inr b \<Rightarrow> Resolved b)
      | Rejected r \<Rightarrow> Rejected r
      | Uncaught e \<Rightarrow> Uncaught e)"

section \<open>AlphaVantage: the requester\<close>

datatype 'c transport_outcome = TransportError 'c | HttpResult int string
  \<comment> \<open>the \<open>(error, response, body)\<close> a \<open>request\<close> callback receives\<close>

fun indexOf_from :: "string \<Rightarrow> string \<Rightarrow> nat \<Rightarrow> int" where
  "indexOf_from [] pat i = (if pat = [] then int i else - 1)"
| "indexOf_from (c # cs) pat i = (if prefix pat (c # cs) then int i else indexOf_from cs pat (Suc i))"

definition indexOf :: "string \<Rightarrow> string \<Rightarrow> int" where
  \<comment> \<open>\<open>s.indexOf(pat)\<close>: the first position where \<open>pat\<close> occurs, or \<open>-1\<close>\<close>
  "indexOf s pat = indexOf_from s pat 0"

definition overloaded_message :: string where
  "overloaded_message = ''The Alpha Vantage servers are overloaded. Please try again.''"

definition second_key :: "string list \<Rightarrow> string" where
  \<comment> \<open>\<open>Object.keys(json)[1]\<close> used as a property key: \<open>undefined\<close> becomes the key "undefined"\<close>
  "second_key ks = (if 1 < length ks then ks ! 1 else ''undefined'')"

definition object_key :: "string option \<Rightarrow> jsval \<Rightarrow> exn + string" where
  \<comment> \<open>\<open>objectKeyOverride ? objectKeyOverride : Object.keys(json)[1]\<close>; the override is
      \<open>None\<close> for \<open>undefined\<close>, and the empty string is falsy\<close>
  "object_key objectKeyOverride json =
     (case objectKeyOverride of
        Some k \<Rightarrow> if k \<noteq> [] then Inr k else map_sum id second_key (Object_keys json)
      | None \<Rightarrow> map_sum id second_key (Object_keys json))"

definition requester_callback ::
  "(string \<Rightarrow> jsval option) \<Rightarrow> string option \<Rightarrow> 'c transport_outcome \<Rightarrow> ('c rejection, jsval) promise" where
  \<comment> \<open>the callback \<open>_requester\<close> hands to \<open>request\<close>. \<open>JSON_parse\<close> is the engine's
      \<open>JSON.parse\<close>, \<open>None\<close> where it throws a SyntaxError.\<close>
  "requester_callback JSON_parse objectKeyOverride outcome =
     (case outcome of
        TransportError error \<Rightarrow> Rejected (Cause error)
      | HttpResult statusCode body \<Rightarrow>
          if indexOf body ''application-error.html'' \<noteq> - 1 then Rejected (LibraryError overloaded_message)
          else if statusCode \<noteq> 200 then Rejected (Body body)
          else
            (case JSON_parse body of
               None \<Rightarrow> Uncaught SyntaxError
             | Some json \<Rightarrow>
                 (case object_key objectKeyOverride json of
                    Inl e \<Rightarrow> Uncaught e
                  | Inr objectKey \<Rightarrow>
                      (case get_prop json objectKey of Inl e \<Rightarrow> Uncaught e | Inr v \<Rightarrow> Resolved v))))"

definition requester_query :: "jsval \<Rightarrow> (string \<times> jsval) list \<Rightarrow> (string \<times> jsval) list" where
  \<comment> \<open>\<open>qs.apikey = _this.apiKey; qs.datatype = "json"\<close>\<close>
  "requester_query apiKey qs = set_own (set_own qs ''apikey'' apiKey) ''datatype'' (JStr ''json'')"

definition alpha_url :: string where
  "alpha_url = ''https://www.alphavantage.co/query''"

definition requester ::
  "(string \<Rightarrow> (string \<times> jsval) list \<Rightarrow> 'c transport_outcome) \<Rightarrow> (string \<Rightarrow> jsval option) \<Rightarrow> jsval \<Rightarrow>
   (string \<times> jsval) list \<Rightarrow> string option \<Rightarrow> ('c rejection, jsval) promise" where
  \<comment> \<open>\<open>_requester(qs, objectKeyOverride)\<close>; \<open>request\<close> is the transport: what comes
      back for a uri and a query\<close>
  "requester request JSON_parse apiKey qs objectKeyOverride =
     requester_callback JSON_parse objectKeyOverride (request alpha_url (requester_query apiKey qs))"

section \<open>AlphaVantage: technical indicators\<close>

type_synonym query = "(string \<times> jsval) list"

definition technical_query ::
  "jsval \<Rightarrow> jsval \<Rightarrow> jsval \<Rightarrow> jsval \<Rightarrow> jsval \<Rightarrow> query option \<Rightarrow> query" where
  \<comment> \<open>the \<open>query\<close> object \<open>_technical\<close> builds; \<open>qs\<close> is \<open>None\<close> when the caller
      passes no list\<close>
  "technical_query type symbol interval timePeriod seriesType qs =
     (let query = [(''function'', type), (''symbol'', symbol), (''interval'', interval),
                   (''time_period'', timePeriod), (''series_type'', seriesType)]
      in case qs of None \<Rightarrow> query | Some qs' \<Rightarrow> fold (\<lambda>(key, val) query. set_own query key val) qs' query)"

definition technical_then :: "(jsval \<Rightarrow> jsdate) \<Rightarrow> jsval \<Rightarrow> exn + jsval list" where
  \<comment> \<open>the \<open>then\<close> callback of \<open>_technical\<close>: one new object per own key of \<open>res\<close>,
      \<open>date\<close> first, then every field of the bar (a field named \<open>date\<close> overwrites
      it); the array is returned as built. \<open>new_Date\<close> is the engine's \<open>new Date(v)\<close>.
      An own property named \<open>hasOwnProperty\<close> shadows the method, and calling it is a
      TypeError; so is \<open>Object.keys\<close> of a \<open>null\<close> bar.\<close>
  "technical_then new_Date res =
     (if ''hasOwnProperty'' \<in> set (map fst (own_props res)) then Inl TypeError
      else if list_ex (\<lambda>(key, bar). nullish bar) (own_props res) then Inl TypeError
      else Inr (map (\<lambda>(key, bar).
                  JObj (fold (\<lambda>(k, v) newObject. set_own newObject k v) (own_props bar)
                          [(''date'', JDate (new_Date (JStr key)))]))
                (own_props res)))"

definition technical ::
  "(string \<Rightarrow> query \<Rightarrow> 'c transport_outcome) \<Rightarrow> (string \<Rightarrow> jsval option) \<Rightarrow> (jsval \<Rightarrow> jsdate) \<Rightarrow>
   jsval \<Rightarrow> jsval \<Rightarrow> jsval \<Rightarrow> jsval \<Rightarrow> jsval \<Rightarrow> jsval \<Rightarrow> query option \<Rightarrow> ('c rejection, jsval list) promise" where
  "technical request JSON_parse new_Date apiKey type symbol interval timePeriod seriesType qs =
     then_promise
       (requester request JSON_parse apiKey
          (technical_query type symbol interval timePeriod seriesType qs) None)
       (technical_then new_Date)"

definition mama_params :: "jsval \<Rightarrow> jsval \<Rightarrow> query" where
  "mama_params fastLimit slowLimit = [(''fastlimit'', fastLimit), (''slowlimit'', slowLimit)]"

definition macd_params :: "jsval \<Rightarrow> jsval \<Rightarrow> jsval \<Rightarrow> jsval \<Rightarrow> jsval \<Rightarrow> jsval \<Rightarrow> query" where
  \<comment> \<open>the list of the second \<open>macd\<close> method of the class, the one with the moving
      average types: it replaces the first, which has the same name\<close>
  "macd_params fastPeriod slowPeriod signalPeriod fastMaType slowMaType signalMaType =
     [(''fastperiod'', if fastPeriod \<noteq> JNull then fastPeriod else JNum 12),
      (''slowperiod'', if slowPeriod \<noteq> JNull then fastPeriod else JNum 26),
      (''signalperiod'', if signalPeriod \<noteq> JNull then signalPeriod else JNum 9),
      (''fastmatype'', if fastMaType \<noteq> JNull then fastMaType else JNum 0),
      (''slowmatype'', if slowMaType \<noteq> JNull then slowMaType else JNum 0),
      (''signalmatype'', if signalMaType \<noteq> JNull then signalMaType else JNum 0)]"

definition stoch_params :: "jsval \<Rightarrow> jsval \<Rightarrow> jsval \<Rightarrow> jsval \<Rightarrow> jsval \<Rightarrow> query" where
  "stoch_params fastKPeriod slowKPeriod slowDPeriod slowKmaType slowDmaType =
     [(''fastkperiod'', if fastKPeriod \<noteq> JNull then fastKPeriod else JNum 12),
      (''slowkperiod'', if slowKPeriod \<noteq> JNull then slowKPeriod else JNum 26),
      (''slowdperiod'', if slowDPeriod \<noteq> JNull then slowDPeriod else JNum 9),
      (''slowkmatype'', if slowKmaType \<noteq> JNull then slowKmaType else JNum 0),
      (''slowdmatype'', if slowDmaType \<noteq> JNull then slowDmaType else JNum 0)]"

definition stochf_params :: "jsval \<Rightarrow> jsval \<Rightarrow> jsval \<Rightarrow> query" where
  \<comment> \<open>\<open>stochf\<close> and \<open>stochRSI\<close> build the same list\<close>
  "stochf_params fastKPeriod fastDPeriod fastDmaType =
     [(''fastkperiod'', if fastKPeriod \<noteq> JNull then fastKPeriod else JNum 12),
      (''fastdperiod'', if fastDPeriod \<noteq> JNull then fastDPeriod else JNum 26),
      (''fastdmatype'', if fastDmaType \<noteq> JNull then fastDmaType else JNum 9)]"

definition bbands_params :: "jsval \<Rightarrow> jsval \<Rightarrow> jsval \<Rightarrow> query" where
  "bbands_params nbdevup nbdevdn matype =
     [(''nbdevup'', if nbdevup \<noteq> JNull then nbdevup else JNum 2),
      (''nbdevdn'', if nbdevdn \<noteq> JNull then nbdevdn else JNum 2),
      (''matype'', if matype \<noteq> JNull then matype else JNum 0)]"

text \<open>
  The query each method emits: what \<open>request\<close> receives as \<open>qs\<close>, after
  \<open>_technical\<close> has built it and \<open>_requester\<close> has added the key and the datatype.
\<close>

definition emitted_query :: "jsval \<Rightarrow> string \<Rightarrow> jsval \<Rightarrow> jsval \<Rightarrow> jsval \<Rightarrow> jsval \<Rightarrow> query option \<Rightarrow> query" where
  "emitted_query apiKey type symbol interval timePeriod seriesType qs =
     requester_query apiKey (technical_query (JStr type) symbol interval timePeriod seriesType qs)"

definition macd_query where
  "macd_query apiKey symbol interval timePeriod seriesType fastPeriod slowPeriod signalPeriod
     fastMaType slowMaType signalMaType =
     emitted_query apiKey ''MACD'' symbol interval timePeriod seriesType
       (Some (macd_params fastPeriod slowPeriod signalPeriod fastMaType slowMaType signalMaType))"

definition stoch_query where
  "stoch_query apiKey symbol interval timePeriod seriesType fastKPeriod slowKPeriod slowDPeriod
     slowKmaType slowDmaType =
     emitted_query apiKey ''STOCH'' symbol interval timePeriod seriesType
       (Some (stoch_params fastKPeriod slowKPeriod slowDPeriod slowKmaType slowDmaType))"

definition stochf_query where
  "stochf_query apiKey symbol interval timePeriod seriesType fastKPeriod fastDPeriod fastDmaType =
     emitted_query apiKey ''STOCHF'' symbol interval timePeriod seriesType
       (Some (stochf_params fastKPeriod fastDPeriod fastDmaType))"

definition stochRSI_query where
  "stochRSI_query apiKey symbol interval timePeriod seriesType fastKPeriod fastDPeriod fastDmaType =
     emitted_query apiKey ''STOCHRSI'' symbol interval timePeriod seriesType
       (Some (stochf_params fastKPeriod fastDPeriod fastDmaType))"

definition bbands_query where
  "bbands_query apiKey symbol interval timePeriod seriesType nbdevup nbdevdn matype =
     emitted_query apiKey ''BBANDS'' symbol interval timePeriod seriesType
       (Some (bbands_params nbdevup nbdevdn matype))"

definition mama_query where
  "mama_query apiKey symbol interval timePeriod seriesType fastLimit slowLimit =
     emitted_query apiKey ''MAMA'' symbol interval timePeriod seriesType
       (Some (mama_params fastLimit slowLimit))"

definition macd where
  "macd request JSON_parse new_Date apiKey symbol interval timePeriod seriesType fastPeriod slowPeriod
     signalPeriod fastMaType slowMaType signalMaType =
     technical request JSON_parse new_Date apiKey (JStr ''MACD'') symbol interval timePeriod seriesType
       (Some (macd_params fastPeriod slowPeriod signalPeriod fastMaType slowMaType signalMaType))"

definition stochf where
  "stochf request JSON_parse new_Date apiKey symbol interval timePeriod seriesType fastKPeriod
     fastDPeriod fastDmaType =
     technical request JSON_parse new_Date apiKey (JStr ''STOCHF'') symbol interval timePeriod seriesType
       (Some (stochf_params fastKPeriod fastDPeriod fastDmaType))"

definition bbands where
  "bbands request JSON_parse new_Date apiKey symbol interval timePeriod seriesType nbdevup nbdevdn matype =
     technical request JSON_parse new_Date apiKey (JStr ''BBANDS'') symbol interval timePeriod seriesType
       (Some (bbands_params nbdevup nbdevdn matype))"

definition param :: "query \<Rightarrow> string \<Rightarrow> jsval option" where
  \<comment> \<open>the value a query carries for a parameter name, \<open>None\<close> when it has none\<close>
  "param q k = map_of q k"


section \<open>AlphaVantage: price series\<close>

datatype jsnumber = Number jsval
  \<comment> \<open>the number \<open>Number(v)\<close>; the conversion is kept unevaluated, no code reads its result\<close>

datatype jstext = JSON_stringify jsval
  \<comment> \<open>the text \<open>JSON.stringify(v)\<close>, kept unevaluated in the same way\<close>

record price =
  "open" :: jsnumber
  high :: jsnumber
  low :: jsnumber
  close :: jsnumber
  volume :: jsnumber

text \<open>
  Modelled from the spec: the class \<open>Quote\<close> (\<open>globals/Quote\<close>) is not among the
  sources. A quote carries the fields of the object it is constructed from: symbol, date,
  source label, price fields and the original record.
\<close>

record quote =
  symbol :: jsval
  date :: jsdate
  source :: string
  price :: price
  original :: jstext

definition Quote_of :: "(jsval \<Rightarrow> jsdate) \<Rightarrow> jsval \<Rightarrow> string \<times> jsval \<Rightarrow> quote" where
  \<comment> \<open>the \<open>new Quote({...})\<close> of \<open>timeSeriesIntraday\<close> for one key and its bar\<close>
  "Quote_of new_Date symb = (\<lambda>(key, bar).
     \<lparr>symbol = symb,
      date = new_Date (JStr key),
      source = ''Alpha Vantage'',
      price = \<lparr>open = Number (own_get bar ''1. open''),
               high = Number (own_get bar ''2. high''),
               low = Number (own_get bar ''3. low''),
               close = Number (own_get bar ''4. close''),
               volume = Number (own_get bar ''5. volume'')\<rparr>,
      original = JSON_stringify bar\<rparr>)"

text \<open>
  \<open>_.sortBy(array, 'date')\<close> is lodash's, not the repository's: it sorts ascending by the
  \<open>date\<close> property and is stable. Two \<open>Date\<close> objects compare by their time values,
  and a comparison with an Invalid Date is false both ways. The model inserts each
  element before the first one that is not smaller, from the last element to the first;
  on arrays of valid dates this is the one order a stable ascending sort can give. When
  an Invalid Date is present the comparison is no order and the engine's result is its
  own; the model then gives one possible result.
\<close>

definition date_gt :: "jsdate \<Rightarrow> jsdate \<Rightarrow> bool" where
  "date_gt a b = (case (a, b) of (Date s, Date t) \<Rightarrow> t < s | _ \<Rightarrow> False)"

fun insort_by :: "('a \<Rightarrow> jsdate) \<Rightarrow> 'a \<Rightarrow> 'a list \<Rightarrow> 'a list" where
  "insort_by f x [] = [x]"
| "insort_by f x (y # ys) = (if date_gt (f x) (f y) then y # insort_by f x ys else x # y # ys)"

definition sortBy :: "('a \<Rightarrow> jsdate) \<Rightarrow> 'a list \<Rightarrow> 'a list" where
  "sortBy f xs = foldr (insort_by f) xs []"

definition timeSeriesIntraday_then :: "(jsval \<Rightarrow> jsdate) \<Rightarrow> jsval \<Rightarrow> jsval \<Rightarrow> exn + quote list" where
  \<comment> \<open>the \<open>then\<close> callback of \<open>timeSeriesIntraday\<close>: one quote per own key of \<open>res\<close>,
      then the sort. Reading a field of a \<open>null\<close> bar is a TypeError, and so is calling
      \<open>res.hasOwnProperty\<close> when an own property of that name shadows the method.\<close>
  "timeSeriesIntraday_then new_Date symb res =
     (if ''hasOwnProperty'' \<in> set (map fst (own_props res)) then Inl TypeError
      else if list_ex (\<lambda>(key, bar). nullish bar) (own_props res) then Inl TypeError
      else Inr (sortBy date (map (Quote_of new_Date symb) (own_props res))))"

definition timeSeriesIntraday ::
  "(string \<Rightarrow> query \<Rightarrow> 'c transport_outcome) \<Rightarrow> (string \<Rightarrow> jsval option) \<Rightarrow> (jsval \<Rightarrow> jsdate) \<Rightarrow>
   jsval \<Rightarrow> jsval \<Rightarrow> jsval \<Rightarrow> ('c rejection, quote list) promise" where
  "timeSeriesIntraday request JSON_parse new_Date apiKey symb interval =
     then_promise
       (requester request JSON_parse apiKey
          [(''function'', JStr ''TIME_SERIES_INTRADAY''), (''symbol'', symb), (''interval'', interval)]
          None)
       (timeSeriesIntraday_then new_Date symb)"

definition time_of :: "jsdate \<Rightarrow> int" where
  \<comment> \<open>the time value of a valid date\<close>
  "time_of d = (case d of Date t \<Rightarrow> t | InvalidDate \<Rightarrow> 0)"

section \<open>A reader for dates\<close>

text \<open>
  The engine's \<open>new Date(v)\<close> is a parameter of the model. To run it on concrete keys,
  this section gives one function to put there: it reads the date-only form
  \<open>YYYY-MM-DD\<close>, which the engine takes as midnight UTC, and the form
  \<open>YYYY-MM-DDTHH:MM:SSZ\<close>; any other value is an Invalid Date here.
\<close>

definition days_from_civil :: "int \<Rightarrow> int \<Rightarrow> int \<Rightarrow> int" where
  \<comment> \<open>days since 1970-01-01 of a date of the proleptic Gregorian calendar\<close>
  "days_from_civil y m d =
     (let y' = (if m \<le> 2 then y - 1 else y);
          era = y' div 400;
          yoe = y' - era * 400;
          doy = (153 * (if 2 < m then m - 3 else m + 9) + 2) div 5 + d - 1;
          doe = yoe * 365 + yoe div 4 - yoe div 100 + doy
      in era * 146097 + doe - 719468)"

definition days_in_month :: "int \<Rightarrow> int \<Rightarrow> int" where
  "days_in_month y m =
     (if m = 2 then (if y mod 4 = 0 \<and> (y mod 400 = 0 \<or> y mod 100 \<noteq> 0) then 29 else 28)
      else if m = 4 \<or> m = 6 \<or> m = 9 \<or> m = 11 then 30 else 31)"

definition is_digit :: "char \<Rightarrow> bool" where
  "is_digit c = ((48::nat) \<le> of_char c \<and> of_char c \<le> (57::nat))"

definition all_digits :: "string \<Rightarrow> bool" where
  "all_digits s = list_all is_digit s"

definition digits_val :: "string \<Rightarrow> int" where
  \<comment> \<open>the number a string of digits writes\<close>
  "digits_val ds = foldl (\<lambda>n c. 10 * n + (of_char c - 48)) 0 ds"

definition read_day :: "string \<Rightarrow> int option" where
  \<comment> \<open>\<open>YYYY-MM-DD\<close> to the day number\<close>
  "read_day s =
     (if length s = 10 \<and> s ! 4 = CHR ''-'' \<and> s ! 7 = CHR ''-''
         \<and> all_digits (take 4 s) \<and> all_digits (take 2 (drop 5 s)) \<and> all_digits (drop 8 s)
      then (let y = digits_val (take 4 s); m = digits_val (take 2 (drop 5 s)); d = digits_val (drop 8 s)
            in if 1 \<le> m \<and> m \<le> 12 \<and> 1 \<le> d \<and> d \<le> days_in_month y m
               then Some (days_from_civil y m d) else None)
      else None)"

definition read_clock :: "string \<Rightarrow> int option" where
  \<comment> \<open>\<open>HH:MM:SS\<close> to the milliseconds since midnight\<close>
  "read_clock s =
     (if length s = 8 \<and> s ! 2 = CHR '':'' \<and> s ! 5 = CHR '':''
         \<and> all_digits (take 2 s) \<and> all_digits (take 2 (drop 3 s)) \<and> all_digits (drop 6 s)
      then (let h = digits_val (take 2 s); m = digits_val (take 2 (drop 3 s)); sec = digits_val (drop 6 s)
            in if h < 24 \<and> m < 60 \<and> sec < 60 then Some (((h * 60 + m) * 60 + sec) * 1000) else None)
      else None)"

definition iso_date :: "jsval \<Rightarrow> jsdate" where
  "iso_date v =
     (case v of
        JStr s \<Rightarrow>
          if length s = 10 then
            (case read_day s of Some n \<Rightarrow> Date (n * 86400000) | None \<Rightarrow> InvalidDate)
          else if length s = 20 \<and> s ! 10 = CHR ''T'' \<and> s ! 19 = CHR ''Z'' then
            (case (read_day (take 10 s), read_clock (take 8 (drop 11 s))) of
               (Some n, Some ms) \<Rightarrow> Date (n * 86400000 + ms)
             | _ \<Rightarrow> InvalidDate)
          else InvalidDate
      | _ \<Rightarrow> InvalidDate)"

section \<open>Market: the object and its lookup\<close>

datatype jsstring = String_of jsval
  \<comment> \<open>the string \<open>String(v)\<close>, kept unevaluated\<close>

record hours =
  isOpen :: bool
  close :: jsval  \<comment> \<open>\<open>null\<close> or a \<open>Date\<close>\<close>
  "open" :: jsval
  extendedOpen :: jsval
  extendedClose :: jsval
  date :: jsdate
  nextTradingDay :: jsstring
  previousTradingDay :: jsstring

definition null_or_Date :: "(jsval \<Rightarrow> jsdate) \<Rightarrow> jsval \<Rightarrow> jsval" where
  \<comment> \<open>\<open>v === null ? null : new Date(v)\<close>\<close>
  "null_or_Date new_Date v = (if v = JNull then JNull else JDate (new_Date v))"

definition parseHours :: "(jsval \<Rightarrow> jsdate) \<Rightarrow> jsval \<Rightarrow> exn + hours" where
  \<comment> \<open>\<open>this.parseHours(object)\<close>; reading a field of \<open>null\<close> or \<open>undefined\<close> is a TypeError\<close>
  "parseHours new_Date object =
     (if nullish object then Inl TypeError
      else Inr \<lparr>isOpen = truthy (own_get object ''is_open''),
                close = null_or_Date new_Date (own_get object ''closes_at''),
                open = null_or_Date new_Date (own_get object ''opens_at''),
                extendedOpen = null_or_Date new_Date (own_get object ''extended_opens_at''),
                extendedClose = null_or_Date new_Date (own_get object ''extended_closes_at''),
                date = new_Date (own_get object ''date''),
                nextTradingDay = String_of (own_get object ''next_open_hours''),
                previousTradingDay = String_of (own_get object ''previous_open_hours'')\<rparr>)"

record market =
  website :: jsstring
  city :: jsstring
  name :: jsstring
  country :: jsstring
  acronym :: jsstring
  timezone :: jsstring
  mic :: jsstring
  hours :: hours

definition Market :: "(jsval \<Rightarrow> jsdate) \<Rightarrow> jsval \<Rightarrow> exn + market" where
  \<comment> \<open>\<open>new Market(object)\<close>. The guard \<open>!object instanceof Object\<close> negates first and is
      never true, so the constructor never throws its own error.\<close>
  "Market new_Date object =
     (if nullish object then Inl TypeError
      else
        (case parseHours new_Date (own_get object ''hours'') of
           Inl e \<Rightarrow> Inl e
         | Inr h \<Rightarrow>
             Inr \<lparr>website = String_of (own_get object ''website''),
                   city = String_of (own_get object ''city''),
                   name = String_of (own_get object ''name''),
                   country = String_of (own_get object ''country''),
                   acronym = String_of (own_get object ''acronym''),
                   timezone = String_of (own_get object ''timezone''),
                   mic = String_of (own_get object ''mic''),
                   hours = h\<rparr>))"

definition set_prop :: "jsval \<Rightarrow> string \<Rightarrow> jsval \<Rightarrow> exn + jsval" where
  \<comment> \<open>\<open>v[k] = x\<close> in strict code (a class body is strict): a TypeError on \<open>null\<close>,
      \<open>undefined\<close> and the primitive values. An array or a date that receives a named
      property is carried on as the object of its own properties.\<close>
  "set_prop v k x =
     (case v of
        JObj kvs \<Rightarrow> Inr (JObj (set_own kvs k x))
      | JArr xs \<Rightarrow> Inr (JObj (set_own (own_props v) k x))
      | JDate d \<Rightarrow> Inr (JObj [(k, x)])
      | _ \<Rightarrow> Inl TypeError)"

definition market_uri :: "string \<Rightarrow> jsval" where
  "market_uri code = JStr (''https://api.robinhood.com/markets/'' @ code @ ''/'')"

text \<open>
  \<open>Robinhood.handleResponse\<close> is not among the sources. It is a parameter here: a function
  from what the \<open>request\<close> callback receives to the one callback it calls, \<open>reject\<close> with
  a failure (\<open>Inl\<close>) or \<open>resolve\<close> with the payload (\<open>Inr\<close>). \<open>request\<close> is the
  transport, a function of the uri. \<open>getByMIC\<close> returns what its promise ends as, and
  the uris it has requested, in order.
\<close>

definition getByMIC ::
  "(jsval \<Rightarrow> 't) \<Rightarrow> ('t \<Rightarrow> 'f + jsval) \<Rightarrow> (jsval \<Rightarrow> jsdate) \<Rightarrow> string \<Rightarrow> ('f, market) promise \<times> jsval list" where
  \<comment> \<open>the guard \<open>!code instanceof String\<close> is never true either\<close>
  "getByMIC request handleResponse new_Date code =
     (case handleResponse (request (market_uri code)) of
        Inl failure \<Rightarrow> (Rejected failure, [market_uri code])
      | Inr market \<Rightarrow>
          (case get_prop market ''todays_hours'' of
             Inl e \<Rightarrow> (Uncaught e, [market_uri code])
           | Inr todays_hours \<Rightarrow>
               (case handleResponse (request todays_hours) of
                  Inl failure \<Rightarrow> (Rejected failure, [market_uri code, todays_hours])
                | Inr hours' \<Rightarrow>
                    (case set_prop market ''hours'' hours' of
                       Inl e \<Rightarrow> (Uncaught e, [market_uri code, todays_hours])
                     | Inr merged \<Rightarrow>
                         (case Market new_Date merged of
                            Inl e \<Rightarrow> (Uncaught e, [market_uri code, todays_hours])
                          | Inr m \<Rightarrow> (Resolved m, [market_uri code, todays_hours]))))))"

text \<open>
  Modelled from the spec: \<open>Robinhood.handleResponse\<close> is missing from the sources; this
  is the classifier of the specification (section 4.1), to put in the place of the
  parameter when \<open>getByMIC\<close> is run on concrete responses: a transport error is a
  \<open>transport\<close> failure; a body with the overload marker is \<open>server-overloaded\<close>; a
  status other than 200 is \<open>non-200-status\<close> with the body; a body that does not parse
  is \<open>malformed-body\<close>; otherwise the parsed payload is the success.
\<close>

datatype failure_kind = transport | server_overloaded | non_200_status | malformed_body

datatype failure = Failure failure_kind string

definition classify :: "(string \<Rightarrow> jsval option) \<Rightarrow> string transport_outcome \<Rightarrow> failure + jsval" where
  "classify JSON_parse outcome =
     (case outcome of
        TransportError cause \<Rightarrow> Inl (Failure transport cause)
      | HttpResult statusCode rawBody \<Rightarrow>
          if indexOf rawBody ''application-error.html'' \<noteq> - 1 then Inl (Failure server_overloaded ''try again'')
          else if statusCode \<noteq> 200 then Inl (Failure non_200_status rawBody)
          else (case JSON_parse rawBody of
                  None \<Rightarrow> Inl (Failure malformed_body rawBody)
                | Some payload \<Rightarrow> Inr payload))"

section \<open>Market: the next open and the next close\<close>

text \<open>
  Instants are milliseconds since the epoch. \<open>moment()\<close> is read as the reference
  instant \<open>now\<close>, the same at every iteration; \<open>moment().add(days, 'days')\<close> is
  \<open>now + days * 86400000\<close> (a zone without clock changes). \<open>getHoursOn\<close> is the method of
  that name as a function: what its promise ends as for the \<open>Date\<close> it is given.
  \<open>async.whilst(test, iteratee, callback)\<close> is the loop of async 2: the test first, then
  the iteratee, whose \<open>callback()\<close> leads back to the test; the final callback runs when
  the test fails.
\<close>

definition isAfter :: "int \<Rightarrow> jsval \<Rightarrow> bool" where
  \<comment> \<open>\<open>moment().isAfter(v)\<close> for the \<open>null\<close> or \<open>Date\<close> that \<open>getOpen()\<close> and
      \<open>getClose()\<close> return: false when \<open>v\<close> is no valid date\<close>
  "isAfter now v = (case v of JDate (Date t) \<Rightarrow> t < now | _ \<Rightarrow> False)"

datatype 'f library_error = LibraryError_of 'f
  \<comment> \<open>\<open>new LibraryError(error)\<close>\<close>

partial_function (option) whilst_next ::
  "(hours \<Rightarrow> jsval) \<Rightarrow> (int \<Rightarrow> ('f, hours) promise) \<Rightarrow> int \<Rightarrow> int \<Rightarrow> jsval \<Rightarrow>
   ('f library_error, jsval) promise option" where
  "whilst_next edge getHoursOn now days next =
     (if next = JNull then
        (case getHoursOn (now + days * 86400000) of
           Resolved hours' \<Rightarrow>
             whilst_next edge getHoursOn now days (if isOpen hours' then edge hours' else next)
         | Rejected error \<Rightarrow> Some (Rejected (LibraryError_of error))
         | Uncaught e \<Rightarrow> Some (Uncaught e))
      else Some (Resolved next))"

definition getNextOpen ::
  "market \<Rightarrow> (int \<Rightarrow> ('f, hours) promise) \<Rightarrow> int \<Rightarrow> ('f library_error, jsval) promise option" where
  \<comment> \<open>\<open>None\<close>: the promise is never settled, the loop does not end\<close>
  "getNextOpen this getHoursOn now =
     whilst_next hours.open getHoursOn now
       (if isAfter now (hours.open (market.hours this)) then 1 else 0) JNull"

definition getNextClose ::
  "market \<Rightarrow> (int \<Rightarrow> ('f, hours) promise) \<Rightarrow> int \<Rightarrow> ('f library_error, jsval) promise option" where
  "getNextClose this getHoursOn now =
     whilst_next hours.close getHoursOn now
       (if isAfter now (hours.close (market.hours this)) then 1 else 0) JNull"

datatype edge = open_edge | close_edge

text \<open>
  \<open>findNextSession\<close> is the specification's name for the two methods, told apart by
  the edge they look for.
\<close>

definition findNextSession ::
  "edge \<Rightarrow> market \<Rightarrow> (int \<Rightarrow> ('f, hours) promise) \<Rightarrow> int \<Rightarrow> ('f library_error, jsval) promise option" where
  "findNextSession e this getHoursOn now =
     (case e of open_edge \<Rightarrow> getNextOpen this getHoursOn now
              | close_edge \<Rightarrow> getNextClose this getHoursOn now)"

definition settled_by ::
  "(hours \<Rightarrow> jsval) \<Rightarrow> (int \<Rightarrow> ('f, hours) promise) \<Rightarrow> int \<Rightarrow> int \<Rightarrow> jsval \<Rightarrow>
   ('f library_error, jsval) promise \<Rightarrow> bool" where
  \<comment> \<open>the only ways the loop ends with \<open>y\<close>: \<open>next\<close> is set already, or the one date it
      asks for fails, or is an open day whose edge is not \<open>null\<close>\<close>
  "settled_by edge getHoursOn now days nxt y =
     (if nxt = JNull then
        (case getHoursOn (now + days * 86400000) of
           Resolved h \<Rightarrow> isOpen h \<and> edge h \<noteq> JNull \<and> y = Resolved (edge h)
         | Rejected error \<Rightarrow> y = Rejected (LibraryError_of error)
         | Uncaught e \<Rightarrow> y = Uncaught e)
      else y = Resolved nxt)"

section \<open>A reader for JSON texts\<close>

text \<open>
  The model takes the engine's \<open>JSON.parse\<close> as a parameter. To run it on concrete
  response bodies, this section gives one reader to put there: a recursive-descent reader
  of JSON texts (whitespace, literals, numbers, strings with the single-character escapes,
  arrays, objects). A repeated key keeps its first place and its last value, and keys that
  are array indices come first, in ascending order, as in the objects \<open>JSON.parse\<close>
  builds. \<open>\u\<close> escapes are not read. The fuel bounds the depth of the calls: each call
  reads a character or is followed by one that does, so a text of length \<open>n\<close> never uses
  the \<open>2 * n + 2\<close> it is given.
\<close>

definition is_ws :: "char \<Rightarrow> bool" where
  "is_ws c = (c = CHR '' '' \<or> c = CHR 0x0A \<or> c = CHR 0x0D \<or> c = CHR 0x09)"

definition skip_ws :: "string \<Rightarrow> string" where
  "skip_ws s = dropWhile is_ws s"

definition unescape :: "char \<Rightarrow> char option" where
  "unescape e =
     (if e = CHR 0x22 \<or> e = CHR 0x5C \<or> e = CHR ''/'' then Some e
      else if e = CHR ''b'' then Some (CHR 0x08)
      else if e = CHR ''f'' then Some (CHR 0x0C)
      else if e = CHR ''n'' then Some (CHR 0x0A)
      else if e = CHR ''r'' then Some (CHR 0x0D)
      else if e = CHR ''t'' then Some (CHR 0x09)
      else None)"

fun read_string :: "string \<Rightarrow> string \<Rightarrow> (string \<times> string) option" where
  \<comment> \<open>the text after an opening quote; the characters read so far, last first\<close>
  "read_string [] acc = None"
| "read_string [c] acc = (if c = CHR 0x22 then Some (rev acc, []) else None)"
| "read_string (c # e # cs) acc =
     (if c = CHR 0x22 then Some (rev acc, e # cs)
      else if c = CHR 0x5C then
        (case unescape e of None \<Rightarrow> None | Some x \<Rightarrow> read_string cs (x # acc))
      else if of_char c < (32::nat) then None
      else read_string (e # cs) (c # acc))"

definition read_digits :: "string \<Rightarrow> (string \<times> string) option" where
  \<comment> \<open>one digit at least\<close>
  "read_digits s = (if takeWhile is_digit s = [] then None
                    else Some (takeWhile is_digit s, dropWhile is_digit s))"

definition read_number :: "string \<Rightarrow> (rat \<times> string) option" where
  "read_number s =
     (let (neg, s1) = (case s of c # cs \<Rightarrow> if c = CHR ''-'' then (True, cs) else (False, s)
                       | [] \<Rightarrow> (False, s))
      in case read_digits s1 of
           None \<Rightarrow> None
         | Some (ip, s2) \<Rightarrow>
             if 1 < length ip \<and> hd ip = CHR ''0'' then None
             else
               (case (case s2 of
                        c # cs \<Rightarrow> if c = CHR ''.'' then read_digits cs else Some ([], s2)
                      | [] \<Rightarrow> Some ([], s2)) of
                  None \<Rightarrow> None
                | Some (fp, s3) \<Rightarrow>
                    (case (case s3 of
                             c # cs \<Rightarrow>
                               if c = CHR ''e'' \<or> c = CHR ''E'' then
                                 (case cs of
                                    d # ds \<Rightarrow>
                                      if d = CHR ''-'' then map_option (\<lambda>(x, r). (True, x, r)) (read_digits ds)
                                      else if d = CHR ''+'' then map_option (\<lambda>(x, r). (False, x, r)) (read_digits ds)
                                      else map_option (\<lambda>(x, r). (False, x, r)) (read_digits cs)
                                  | [] \<Rightarrow> None)
                               else Some (False, [], s3)
                           | [] \<Rightarrow> Some (False, [], s3)) of
                       None \<Rightarrow> None
                     | Some (eneg, ep, s4) \<Rightarrow>
                         (let m = of_int (digits_val (ip @ fp)) / 10 ^ length fp;
                              v = (if eneg then m / 10 ^ nat (digits_val ep) else m * 10 ^ nat (digits_val ep))
                          in Some (if neg then - v else v, s4)))))"

definition is_index :: "string \<Rightarrow> bool" where
  \<comment> \<open>the key is an array index: a canonical decimal below \<open>2^32 - 1\<close>\<close>
  "is_index k =
     (k \<noteq> [] \<and> all_digits k \<and> (k = ''0'' \<or> hd k \<noteq> CHR ''0'') \<and> digits_val k < 4294967295)"

definition key_order :: "(string \<times> jsval) list \<Rightarrow> (string \<times> jsval) list" where
  "key_order kvs =
     sort_key (\<lambda>(k, v). digits_val k) (filter (\<lambda>(k, v). is_index k) kvs)
     @ filter (\<lambda>(k, v). \<not> is_index k) kvs"

fun read_value :: "nat \<Rightarrow> string \<Rightarrow> (jsval \<times> string) option"
  and read_elements :: "nat \<Rightarrow> string \<Rightarrow> jsval list \<Rightarrow> (jsval \<times> string) option"
  and read_members :: "nat \<Rightarrow> string \<Rightarrow> (string \<times> jsval) list \<Rightarrow> (jsval \<times> string) option"
where
  "read_value 0 s = None"
| "read_value (Suc n) s =
     (case skip_ws s of
        [] \<Rightarrow> None
      | c # cs \<Rightarrow>
          if c = CHR ''{'' then
            (case skip_ws cs of
               [] \<Rightarrow> None
             | c' # cs' \<Rightarrow> if c' = CHR ''}'' then Some (JObj [], cs') else read_members n (c' # cs') [])
          else if c = CHR ''['' then
            (case skip_ws cs of
               [] \<Rightarrow> None
             | c' # cs' \<Rightarrow> if c' = CHR '']'' then Some (JArr [], cs') else read_elements n (c' # cs') [])
          else if c = CHR 0x22 then map_option (\<lambda>(str, r). (JStr str, r)) (read_string cs [])
          else if prefix ''true'' (c # cs) then Some (JBool True, drop 4 (c # cs))
          else if prefix ''false'' (c # cs) then Some (JBool False, drop 5 (c # cs))
          else if prefix ''null'' (c # cs) then Some (JNull, drop 4 (c # cs))
          else map_option (\<lambda>(q, r). (JNum q, r)) (read_number (c # cs)))"
| "read_elements 0 s acc = None"
| "read_elements (Suc n) s acc =
     (case read_value n s of
        None \<Rightarrow> None
      | Some (v, r) \<Rightarrow>
          (case skip_ws r of
             [] \<Rightarrow> None
           | c # cs \<Rightarrow>
               if c = CHR '','' then read_elements n cs (acc @ [v])
               else if c = CHR '']'' then Some (JArr (acc @ [v]), cs)
               else None))"
| "read_members 0 s acc = None"
| "read_members (Suc n) s acc =
     (case skip_ws s of
        [] \<Rightarrow> None
      | c # cs \<Rightarrow>
          if c = CHR 0x22 then
            (case read_string cs [] of
               None \<Rightarrow> None
             | Some (k, r) \<Rightarrow>
                 (case skip_ws r of
                    [] \<Rightarrow> None
                  | c' # cs' \<Rightarrow>
                      if c' = CHR '':'' then
                        (case read_value n cs' of
                           None \<Rightarrow> None
                         | Some (v, r') \<Rightarrow>
                             (case skip_ws r' of
                                [] \<Rightarrow> None
                              | c'' # cs'' \<Rightarrow>
                                  if c'' = CHR '','' then read_members n cs'' (set_own acc k v)
                                  else if c'' = CHR ''}'' then Some (JObj (key_order (set_own acc k v)), cs'')
                                  else None))
                      else None))
          else None)"

definition json_parse :: "string \<Rightarrow> jsval option" where
  "json_parse s =
     (case read_value (2 * length s + 2) s of
        None \<Rightarrow> None
      | Some (v, r) \<Rightarrow> if skip_ws r = [] then Some v else None)"

section \<open>Concrete inputs\<close>

definition overload_page :: string where
  \<comment> \<open>the body of Scenario C\<close>
  "overload_page = ''<html>application-error.html...</html>''"

definition gateway_page :: string where
  "gateway_page = ''<html>Bad Gateway</html>''"

definition truncated_body :: string where
  \<open>truncated_body = ''{"Meta Data": {"2. Symbol": "IBM"}, "Time Series''\<close>

definition daily_body :: string where
  \<open>daily_body = ''{"Meta Data": {"2. Symbol": "IBM"}, "Time Series (Daily)": {"2024-01-02": {"4. close": "100.5"}, "2024-01-01": {"4. close": "99.0"}}}''\<close>

definition scenario_B :: jsval where
  \<comment> \<open>the keyed series of Scenario B, with the vendor's name for the close field\<close>
  "scenario_B = JObj [(''2024-01-02'', JObj [(''4. close'', JStr ''100.5'')]),
                      (''2024-01-03'', JObj [(''4. close'', JStr ''101.0'')]),
                      (''2024-01-01'', JObj [(''4. close'', JStr ''99.0'')])]"

text \<open>
  Scenario A. The reference instant is 2024-03-01 09:00; the market is open on
  2024-03-04 from 09:30 to 16:00 and closed on the other days; the market object was
  built on 2024-03-01, a closed day.
\<close>

definition day_ms :: int where
  "day_ms = 86400000"

definition closed_day :: "int \<Rightarrow> hours" where
  "closed_day d =
     \<lparr>isOpen = False, close = JNull, open = JNull, extendedOpen = JNull, extendedClose = JNull,
      date = Date (d * day_ms), nextTradingDay = String_of JUndefined,
      previousTradingDay = String_of JUndefined\<rparr>"

definition open_day :: "int \<Rightarrow> hours" where
  \<comment> \<open>a session from 09:30 to 16:00\<close>
  "open_day d =
     \<lparr>isOpen = True, close = JDate (Date (d * day_ms + 57600000)),
      open = JDate (Date (d * day_ms + 34200000)), extendedOpen = JNull, extendedClose = JNull,
      date = Date (d * day_ms), nextTradingDay = String_of JUndefined,
      previousTradingDay = String_of JUndefined\<rparr>"

definition scenario_A_getHoursOn :: "int \<Rightarrow> (string, hours) promise" where
  "scenario_A_getHoursOn t =
     (if t div day_ms = days_from_civil 2024 3 4 then Resolved (open_day (t div day_ms))
      else Resolved (closed_day (t div day_ms)))"

definition market_on :: "hours \<Rightarrow> market" where
  "market_on h =
     \<lparr>website = String_of JUndefined, city = String_of JUndefined, name = String_of (JStr ''NASDAQ''),
      country = String_of JUndefined, acronym = String_of JUndefined, timezone = String_of JUndefined,
      mic = String_of (JStr ''XNAS''), hours = h\<rparr>"

definition scenario_A_market :: market where
  "scenario_A_market = market_on (closed_day (days_from_civil 2024 3 1))"

definition scenario_A_now :: int where
  "scenario_A_now = days_from_civil 2024 3 1 * day_ms + 32400000"

definition monday_market :: market where
  "monday_market = market_on (open_day (days_from_civil 2024 3 4))"

definition monday_9am :: int where
  "monday_9am = days_from_civil 2024 3 4 * day_ms + 32400000"

text \<open>
  Two markets for \<open>getByMIC\<close>: the payload of XNAS names today's hours, the payload of
  XNYS does not. The transport answers a request without uri as the \<open>request\<close> library
  does, with an error.
\<close>

definition xnas_body :: string where
  \<open>xnas_body = ''{"mic": "XNAS", "name": "NASDAQ", "todays_hours": "https://api.robinhood.com/markets/XNAS/hours/2024-03-04/"}''\<close>

definition xnas_hours_body :: string where
  \<open>xnas_hours_body = ''{"is_open": true, "opens_at": "2024-03-04T14:30:00Z", "closes_at": "2024-03-04T21:00:00Z", "extended_opens_at": null, "extended_closes_at": null, "date": "2024-03-04"}''\<close>

definition xnys_body :: string where
  \<open>xnys_body = ''{"mic": "XNYS", "name": "New York Stock Exchange"}''\<close>

definition demo_request :: "jsval \<Rightarrow> string transport_outcome" where
  "demo_request uri =
     (if uri = market_uri ''XNAS'' then HttpResult 200 xnas_body
      else if uri = JStr ''https://api.robinhood.com/markets/XNAS/hours/2024-03-04/'' then HttpResult 200 xnas_hours_body
      else if uri = market_uri ''XNYS'' then HttpResult 200 xnys_body
      else if uri = JUndefined then TransportError ''options.uri is a required argument''
      else HttpResult 404 ''Not Found'')"

definition null_hours_request :: "jsval \<Rightarrow> string transport_outcome" where
  \<comment> \<open>the same market, but the hours endpoint answers with the JSON text \<open>null\<close>\<close>
  "null_hours_request uri =
     (if uri = market_uri ''XNAS'' then HttpResult 200 xnas_body
      else if uri = JStr ''https://api.robinhood.com/markets/XNAS/hours/2024-03-04/'' then HttpResult 200 ''null''
      else HttpResult 404 ''Not Found'')"

section \<open>Properties of the indicator queries\<close>

lemma macd_query_unfold:
  "macd_query apiKey symb interval timePeriod seriesType fastPeriod slowPeriod signalPeriod
     fastMaType slowMaType signalMaType =
   [(''function'', JStr ''MACD''), (''symbol'', symb), (''interval'', interval),
    (''time_period'', timePeriod), (''series_type'', seriesType),
    (''fastperiod'', if fastPeriod \<noteq> JNull then fastPeriod else JNum 12),
    (''slowperiod'', if slowPeriod \<noteq> JNull then fastPeriod else JNum 26),
    (''signalperiod'', if signalPeriod \<noteq> JNull then signalPeriod else JNum 9),
    (''fastmatype'', if fastMaType \<noteq> JNull then fastMaType else JNum 0),
    (''slowmatype'', if slowMaType \<noteq> JNull then slowMaType else JNum 0),
    (''signalmatype'', if signalMaType \<noteq> JNull then signalMaType else JNum 0),
    (''apikey'', apiKey), (''datatype'', JStr ''json'')]"
  by (simp add: macd_query_def emitted_query_def requester_query_def technical_query_def
      macd_params_def)

lemma macd_emits_query:
  "macd request JSON_parse new_Date apiKey symb interval timePeriod seriesType fastPeriod slowPeriod
     signalPeriod fastMaType slowMaType signalMaType =
   then_promise
     (requester_callback JSON_parse None
        (request alpha_url
           (macd_query apiKey symb interval timePeriod seriesType fastPeriod slowPeriod
              signalPeriod fastMaType slowMaType signalMaType)))
     (technical_then new_Date)"
  by (simp add: macd_def technical_def requester_def macd_query_def emitted_query_def)

lemma stochf_emits_query:
  "stochf request JSON_parse new_Date apiKey symb interval timePeriod seriesType fastKPeriod
     fastDPeriod fastDmaType =
   then_promise
     (requester_callback JSON_parse None
        (request alpha_url
           (stochf_query apiKey symb interval timePeriod seriesType fastKPeriod fastDPeriod
              fastDmaType)))
     (technical_then new_Date)"
  by (simp add: stochf_def technical_def requester_def stochf_query_def emitted_query_def)

lemma bbands_emits_query:
  "bbands request JSON_parse new_Date apiKey symb interval timePeriod seriesType nbdevup nbdevdn matype =
   then_promise
     (requester_callback JSON_parse None
        (request alpha_url
           (bbands_query apiKey symb interval timePeriod seriesType nbdevup nbdevdn matype)))
     (technical_then new_Date)"
  by (simp add: bbands_def technical_def requester_def bbands_query_def emitted_query_def)

text \<open>
  C2, as stated: with \<open>slowPeriod\<close> null and \<open>fastPeriod = 10\<close> the emitted
  \<open>slowperiod\<close> would be the fast-period value 10. The code emits the default 26 there.
\<close>

theorem macd_null_slowPeriod_counterexample:
  "param (macd_query (JStr ''demo'') (JStr ''IBM'') (JStr ''daily'') (JNum 14) (JStr ''close'')
            (JNum 10) JNull (JNum 9) (JNum 0) (JNum 0) (JNum 0)) ''slowperiod'' = Some (JNum 26)
   \<and> param (macd_query (JStr ''demo'') (JStr ''IBM'') (JStr ''daily'') (JNum 14) (JStr ''close'')
            (JNum 10) JNull (JNum 9) (JNum 0) (JNum 0) (JNum 0)) ''slowperiod'' \<noteq> Some (JNum 10)"
  by (simp add: macd_query_unfold param_def)

text \<open>
  C2, amended: in the MACD method, a null \<open>slowPeriod\<close> makes the emitted \<open>slowperiod\<close>
  parameter the slow-period default 26, whatever the fast period is.
\<close>

theorem macd_null_slowPeriod_default:
  "param (macd_query apiKey symb interval timePeriod seriesType fastPeriod JNull signalPeriod
            fastMaType slowMaType signalMaType) ''slowperiod'' = Some (JNum 26)"
  by (simp add: macd_query_unfold param_def)

text \<open>
  The slip of the MACD method is on the other branch: a \<open>slowPeriod\<close> that is not
  null is dropped, and the fast period is sent in its place.
\<close>

lemma macd_given_slowPeriod_dropped:
  "slowPeriod \<noteq> JNull \<Longrightarrow>
   param (macd_query apiKey symb interval timePeriod seriesType fastPeriod slowPeriod signalPeriod
            fastMaType slowMaType signalMaType) ''slowperiod'' = Some fastPeriod"
  by (simp add: macd_query_unfold param_def)

lemma macd_given_slowPeriod_dropped_example:
  "param (macd_query (JStr ''demo'') (JStr ''IBM'') (JStr ''daily'') (JNum 14) (JStr ''close'')
            (JNum 10) (JNum 30) (JNum 9) (JNum 0) (JNum 0) (JNum 0)) ''slowperiod'' = Some (JNum 10)"
  by (simp add: macd_query_unfold param_def)

lemma bbands_query_unfold:
  "bbands_query apiKey symb interval timePeriod seriesType nbdevup nbdevdn matype =
   [(''function'', JStr ''BBANDS''), (''symbol'', symb), (''interval'', interval),
    (''time_period'', timePeriod), (''series_type'', seriesType),
    (''nbdevup'', if nbdevup \<noteq> JNull then nbdevup else JNum 2),
    (''nbdevdn'', if nbdevdn \<noteq> JNull then nbdevdn else JNum 2),
    (''matype'', if matype \<noteq> JNull then matype else JNum 0),
    (''apikey'', apiKey), (''datatype'', JStr ''json'')]"
  by (simp add: bbands_query_def emitted_query_def requester_query_def technical_query_def
      bbands_params_def)

lemma stochf_query_unfold:
  "stochf_query apiKey symb interval timePeriod seriesType fastKPeriod fastDPeriod fastDmaType =
   [(''function'', JStr ''STOCHF''), (''symbol'', symb), (''interval'', interval),
    (''time_period'', timePeriod), (''series_type'', seriesType),
    (''fastkperiod'', if fastKPeriod \<noteq> JNull then fastKPeriod else JNum 12),
    (''fastdperiod'', if fastDPeriod \<noteq> JNull then fastDPeriod else JNum 26),
    (''fastdmatype'', if fastDmaType \<noteq> JNull then fastDmaType else JNum 9),
    (''apikey'', apiKey), (''datatype'', JStr ''json'')]"
  by (simp add: stochf_query_def emitted_query_def requester_query_def technical_query_def
      stochf_params_def)

lemma bbands_all_null:
  "map (param (bbands_query apiKey symb interval timePeriod seriesType JNull JNull JNull))
     [''nbdevup'', ''nbdevdn'', ''matype''] = [Some (JNum 2), Some (JNum 2), Some (JNum 0)]"
  by (simp add: bbands_query_unfold param_def)

lemma macd_all_null:
  "map (param (macd_query apiKey symb interval timePeriod seriesType JNull JNull JNull JNull JNull JNull))
     [''fastperiod'', ''slowperiod'', ''signalperiod'', ''fastmatype'', ''slowmatype'', ''signalmatype'']
   = [Some (JNum 12), Some (JNum 26), Some (JNum 9), Some (JNum 0), Some (JNum 0), Some (JNum 0)]"
  by (simp add: macd_query_unfold param_def)

lemma stoch_all_null:
  "map (param (stoch_query apiKey symb interval timePeriod seriesType JNull JNull JNull JNull JNull))
     [''fastkperiod'', ''slowkperiod'', ''slowdperiod'', ''slowkmatype'', ''slowdmatype'']
   = [Some (JNum 12), Some (JNum 26), Some (JNum 9), Some (JNum 0), Some (JNum 0)]"
  by (simp add: stoch_query_def emitted_query_def requester_query_def technical_query_def
      stoch_params_def param_def)

lemma mama_all_null:
  "map (param (mama_query apiKey symb interval timePeriod seriesType JNull JNull))
     [''fastlimit'', ''slowlimit''] = [Some JNull, Some JNull]"
  by (simp add: mama_query_def emitted_query_def requester_query_def technical_query_def
      mama_params_def param_def)

text \<open>
  C7, at the input where the code leaves it: \<open>stochf\<close> called with every optional
  argument null emits \<open>fastdmatype = 9\<close>, where the moving-average types default to 0
  (and the method's own documentation accepts 0 to 8 only). \<open>stochRSI\<close> builds the
  same list.
\<close>

theorem stochf_all_null_fastdmatype:
  "param (stochf_query apiKey symb interval timePeriod seriesType JNull JNull JNull) ''fastdmatype''
     = Some (JNum 9)
   \<and> param (stochRSI_query apiKey symb interval timePeriod seriesType JNull JNull JNull) ''fastdmatype''
     = Some (JNum 9)"
  by (simp add: stochf_query_unfold stochRSI_query_def emitted_query_def requester_query_def
      technical_query_def stochf_params_def param_def)

section \<open>Properties of the requester\<close>

lemma indexOf_from_found: "int i \<le> indexOf_from (pre @ pat @ post) pat i"
proof (induction pre arbitrary: i)
  case Nil
  have "prefix pat (pat @ post)" by simp
  then show ?case by (cases "pat @ post") auto
next
  case (Cons c pre)
  have "int (Suc i) \<le> indexOf_from (pre @ pat @ post) pat (Suc i)" by (rule Cons.IH)
  then show ?case by simp
qed

lemma indexOf_found: "indexOf (pre @ pat @ post) pat \<noteq> - 1"
  using indexOf_from_found [of 0 pre pat post] by (simp add: indexOf_def)

lemma indexOf_from_occurs:
  "indexOf_from s pat i \<noteq> - 1 \<Longrightarrow> \<exists>pre post. s = pre @ pat @ post"
proof (induction s arbitrary: i)
  case Nil
  then show ?case by (auto split: if_splits)
next
  case (Cons c s)
  show ?case
  proof (cases "prefix pat (c # s)")
    case True
    then obtain post where "c # s = pat @ post" by (auto simp: prefix_def)
    then have "c # s = [] @ pat @ post" by simp
    then show ?thesis by blast
  next
    case False
    with Cons.prems have "indexOf_from s pat (Suc i) \<noteq> - 1" by simp
    from Cons.IH [OF this] obtain pre post where "s = pre @ pat @ post" by blast
    then have "c # s = (c # pre) @ pat @ post" by simp
    then show ?thesis by blast
  qed
qed

lemma requester_marker_found:
  "indexOf body ''application-error.html'' \<noteq> - 1 \<Longrightarrow>
   requester_callback JSON_parse objectKeyOverride (HttpResult statusCode body)
   = Rejected (LibraryError overloaded_message)"
  by (simp add: requester_callback_def)

lemma indexOf_absent_iff:
  "indexOf s pat = - 1 \<longleftrightarrow> \<not> (\<exists>pre post. s = pre @ pat @ post)"
  using indexOf_from_occurs [of s pat 0] indexOf_found [of _ pat] by (auto simp: indexOf_def)

text \<open>
  C3: a body that contains the marker \<open>application-error.html\<close> is rejected as an
  overloaded server, whatever the status code, the key override and the parser are: the
  marker is looked for before the status code is read, and the body is never parsed.
\<close>

theorem requester_overload_marker_first:
  "requester_callback JSON_parse objectKeyOverride
     (HttpResult statusCode (pre @ ''application-error.html'' @ post) :: 'c transport_outcome)
   = Rejected (LibraryError overloaded_message)"
  by (rule requester_marker_found) (rule indexOf_found)

theorem requester_overload_marker_first_witness:
  "requester_callback json_parse None (HttpResult 200 overload_page :: (unit transport_outcome))
   = Rejected (LibraryError ''The Alpha Vantage servers are overloaded. Please try again.'')"
  using requester_overload_marker_first
          [of json_parse None 200 "''<html>''" "''...</html>''", where ?'c = unit]
  by (simp add: overload_page_def overloaded_message_def)

text \<open>
  C6, as stated: a 200 response without the marker whose body is not JSON would reject
  the promise. The code calls \<open>JSON.parse\<close> unguarded in the \<open>request\<close> callback, so
  the SyntaxError leaves the callback and the promise is neither rejected nor resolved.
\<close>

theorem requester_unparsable_body_counterexample:
  "requester_callback json_parse None (HttpResult 200 gateway_page :: (unit transport_outcome))
   = Uncaught SyntaxError"
  unfolding gateway_page_def by code_simp

text \<open>
  C6, amended: for a 200 response without the marker whose body \<open>JSON.parse\<close> refuses,
  the SyntaxError is not caught: the promise is neither resolved (so never an empty
  success) nor rejected.
\<close>

theorem requester_unparsable_body_uncaught:
  assumes "indexOf body ''application-error.html'' = - 1" and "JSON_parse body = None"
  shows "requester_callback JSON_parse objectKeyOverride (HttpResult 200 body :: 'c transport_outcome)
           = Uncaught SyntaxError"
  using assms by (simp add: requester_callback_def)

theorem requester_unparsable_body_uncaught_witness:
  "indexOf truncated_body ''application-error.html'' = - 1 \<and> json_parse truncated_body = None
   \<and> requester_callback json_parse None (HttpResult 200 truncated_body :: (unit transport_outcome))
       = Uncaught SyntaxError"
proof -
  have h1: "indexOf truncated_body ''application-error.html'' = - 1"
    unfolding truncated_body_def by code_simp
  have h2: "json_parse truncated_body = None"
    unfolding truncated_body_def by code_simp
  from requester_unparsable_body_uncaught
         [where body = truncated_body and JSON_parse = json_parse and ?'c = unit, OF h1 h2] h1 h2
  show ?thesis by simp
qed

lemma value_smaller_than_object: "(k, v) \<in> set kvs \<Longrightarrow> size v < size (JObj kvs)"
  by (induction kvs) auto

text \<open>
  C10: for a 200 response without the marker whose body parses to an object with two
  keys or more, the requester resolves with the value of the second key in enumeration
  order when no override is given (the empty string counts as none), which is not the
  whole payload; with an override that names a property, it resolves with that property.
\<close>

theorem requester_resolves_second_key:
  assumes "indexOf body ''application-error.html'' = - 1"
    and "JSON_parse body = Some (JObj kvs)"
    and "distinct (map fst kvs)"
  shows "(1 < length kvs \<longrightarrow>
            requester_callback JSON_parse None (HttpResult 200 body :: 'c transport_outcome)
              = Resolved (snd (kvs ! 1))
          \<and> requester_callback JSON_parse (Some []) (HttpResult 200 body :: 'c transport_outcome)
              = Resolved (snd (kvs ! 1))
          \<and> snd (kvs ! 1) \<noteq> JObj kvs)
       \<and> (\<forall>k v. k \<noteq> [] \<and> (k, v) \<in> set kvs \<longrightarrow>
            requester_callback JSON_parse (Some k) (HttpResult 200 body :: 'c transport_outcome)
              = Resolved v)"
proof (intro conjI impI allI)
  assume len: "1 < length kvs"
  then have mem: "kvs ! 1 \<in> set kvs" by simp
  then have "(fst (kvs ! 1), snd (kvs ! 1)) \<in> set kvs" by simp
  with assms(3) have look: "map_of kvs (fst (kvs ! 1)) = Some (snd (kvs ! 1))" by simp
  from len have key: "map fst kvs ! 1 = fst (kvs ! 1)" by simp
  from assms(1,2) len look key
  show "requester_callback JSON_parse None (HttpResult 200 body :: 'c transport_outcome)
          = Resolved (snd (kvs ! 1))"
    by (simp add: requester_callback_def object_key_def Object_keys_def second_key_def
        get_prop_def own_get_def nullish_def)
  from assms(1,2) len look key
  show "requester_callback JSON_parse (Some []) (HttpResult 200 body :: 'c transport_outcome)
          = Resolved (snd (kvs ! 1))"
    by (simp add: requester_callback_def object_key_def Object_keys_def second_key_def
        get_prop_def own_get_def nullish_def)
  from mem have "size (snd (kvs ! 1)) < size (JObj kvs)"
    using value_smaller_than_object [of "fst (kvs ! 1)" "snd (kvs ! 1)" kvs] by simp
  then show "snd (kvs ! 1) \<noteq> JObj kvs" by auto
next
  fix k v
  assume kv: "k \<noteq> [] \<and> (k, v) \<in> set kvs"
  with assms(3) have "map_of kvs k = Some v" by simp
  with assms(1,2) kv
  show "requester_callback JSON_parse (Some k) (HttpResult 200 body :: 'c transport_outcome)
          = Resolved v"
    by (simp add: requester_callback_def object_key_def get_prop_def own_get_def nullish_def)
qed

theorem requester_resolves_second_key_witness:
  "requester_callback json_parse None (HttpResult 200 daily_body :: (unit transport_outcome))
     = Resolved (JObj [(''2024-01-02'', JObj [(''4. close'', JStr ''100.5'')]),
                       (''2024-01-01'', JObj [(''4. close'', JStr ''99.0'')])])
   \<and> requester_callback json_parse (Some ''Meta Data'') (HttpResult 200 daily_body :: (unit transport_outcome))
     = Resolved (JObj [(''2. Symbol'', JStr ''IBM'')])"
proof -
  let ?series = "JObj [(''2024-01-02'', JObj [(''4. close'', JStr ''100.5'')]),
                       (''2024-01-01'', JObj [(''4. close'', JStr ''99.0'')])]"
  let ?kvs = "[(''Meta Data'', JObj [(''2. Symbol'', JStr ''IBM'')]), (''Time Series (Daily)'', ?series)]"
  have h1: "indexOf daily_body ''application-error.html'' = - 1"
    unfolding daily_body_def by code_simp
  have h2: "json_parse daily_body = Some (JObj ?kvs)"
    unfolding daily_body_def by code_simp
  have h3: "distinct (map fst ?kvs)" by simp
  note r = requester_resolves_second_key
         [where body = daily_body and JSON_parse = json_parse and kvs = ?kvs and ?'c = unit,
          OF h1 h2 h3]
  from r have a: "requester_callback json_parse None (HttpResult 200 daily_body :: unit transport_outcome) = Resolved ?series"
    by simp
  from r have "\<forall>k v. k \<noteq> [] \<and> (k, v) \<in> set ?kvs \<longrightarrow>
                 requester_callback json_parse (Some k) (HttpResult 200 daily_body :: unit transport_outcome) = Resolved v"
    by (rule conjunct2)
  then have b: "requester_callback json_parse (Some ''Meta Data'') (HttpResult 200 daily_body :: unit transport_outcome)
                  = Resolved (JObj [(''2. Symbol'', JStr ''IBM'')])"
    by simp
  from a b show ?thesis by (rule conjI)
qed

text \<open>
  An object with fewer than two keys has no second key: the code then reads the property
  named "undefined", which is normally absent, and resolves with \<open>undefined\<close>.
\<close>

lemma requester_single_key_undefined:
  assumes "indexOf body ''application-error.html'' = - 1"
    and "JSON_parse body = Some (JObj [(k, v)])" and "k \<noteq> ''undefined''"
  shows "requester_callback JSON_parse None (HttpResult 200 body) = Resolved JUndefined"
  using assms
  by (simp add: requester_callback_def object_key_def Object_keys_def second_key_def
      get_prop_def own_get_def nullish_def)

section \<open>Properties of the flattening steps\<close>

lemma time_of_Date [simp]: "time_of (Date t) = t"
  by (simp add: time_of_def)

lemma valid_date_eq: "d \<noteq> InvalidDate \<Longrightarrow> (d = Date t) = (time_of d = t)"
  by (cases d) auto

lemma insort_by_valid:
  "f x \<noteq> InvalidDate \<Longrightarrow> \<forall>y \<in> set ys. f y \<noteq> InvalidDate \<Longrightarrow>
   insort_by f x ys = insort_key (\<lambda>a. time_of (f a)) x ys"
proof (induction ys)
  case Nil
  show ?case by simp
next
  case (Cons y ys)
  from Cons.prems obtain s t where fx: "f x = Date s" and fy: "f y = Date t"
    by (cases "f x"; cases "f y") auto
  from Cons.prems have "insort_by f x ys = insort_key (\<lambda>a. time_of (f a)) x ys"
    by (intro Cons.IH) auto
  with fx fy show ?case by (auto simp: date_gt_def)
qed

lemma sortBy_valid:
  "\<forall>x \<in> set xs. f x \<noteq> InvalidDate \<Longrightarrow> sortBy f xs = sort_key (\<lambda>a. time_of (f a)) xs"
proof (induction xs)
  case Nil
  show ?case by (simp add: sortBy_def)
next
  case (Cons x xs)
  then have ih: "sortBy f xs = sort_key (\<lambda>a. time_of (f a)) xs" by simp
  have "sortBy f (x # xs) = insort_by f x (sortBy f xs)" by (simp add: sortBy_def)
  also have "\<dots> = insort_by f x (sort_key (\<lambda>a. time_of (f a)) xs)" by (simp only: ih)
  also have "\<dots> = insort_key (\<lambda>a. time_of (f a)) x (sort_key (\<lambda>a. time_of (f a)) xs)"
    using Cons.prems by (intro insort_by_valid) auto
  finally show ?case by simp
qed

lemma sortBy_valid_stable:
  assumes "\<forall>x \<in> set xs. f x \<noteq> InvalidDate"
  shows "filter (\<lambda>x. f x = d) (sortBy f xs) = filter (\<lambda>x. f x = d) xs"
proof (cases d)
  case (Date t)
  have "filter (\<lambda>x. f x = d) (sort_key (\<lambda>a. time_of (f a)) xs)
          = filter (\<lambda>x. time_of (f x) = t) (sort_key (\<lambda>a. time_of (f a)) xs)"
    using assms Date by (intro filter_cong refl) (simp add: valid_date_eq)
  also have "\<dots> = filter (\<lambda>x. time_of (f x) = t) xs" by (rule sort_key_stable)
  also have "\<dots> = filter (\<lambda>x. f x = d) xs"
    using assms Date by (intro filter_cong refl) (simp add: valid_date_eq)
  finally show ?thesis using assms by (simp add: sortBy_valid)
next
  case InvalidDate
  with assms have "filter (\<lambda>x. f x = d) (sort_key (\<lambda>a. time_of (f a)) xs) = []"
    and "filter (\<lambda>x. f x = d) xs = []"
    by (auto simp: filter_empty_conv)
  with assms show ?thesis by (simp add: sortBy_valid)
qed

text \<open>
  C4: for a keyed series (an object whose keys are dates the engine reads and whose bars
  are not null), the \<open>then\<close> callback of \<open>timeSeriesIntraday\<close> returns one quote per
  key; the quotes are sorted non-decreasing by date, and quotes of equal date keep the
  order of their keys.
\<close>

theorem timeSeriesIntraday_sorted_by_date:
  assumes "''hasOwnProperty'' \<notin> set (map fst kvs)"
    and "\<forall>(key, bar) \<in> set kvs. \<not> nullish bar \<and> new_Date (JStr key) \<noteq> InvalidDate"
  shows "\<exists>qs. timeSeriesIntraday_then new_Date symb (JObj kvs) = Inr qs
           \<and> length qs = length kvs
           \<and> mset qs = mset (map (Quote_of new_Date symb) kvs)
           \<and> sorted (map (\<lambda>q. time_of (quote.date q)) qs)
           \<and> (\<forall>q \<in> set qs. quote.date q \<noteq> InvalidDate)
           \<and> (\<forall>d. filter (\<lambda>q. quote.date q = d) qs
                    = filter (\<lambda>q. quote.date q = d) (map (Quote_of new_Date symb) kvs))"
proof -
  let ?xs = "map (Quote_of new_Date symb) kvs"
  from assms(2) have nonnull: "\<not> list_ex (\<lambda>(key, bar). nullish bar) kvs"
    by (auto simp: list_ex_iff)
  from assms(2) have valid: "\<forall>q \<in> set ?xs. quote.date q \<noteq> InvalidDate"
    by (auto simp: Quote_of_def)
  have run: "timeSeriesIntraday_then new_Date symb (JObj kvs) = Inr (sortBy quote.date ?xs)"
    using assms(1) nonnull by (simp add: timeSeriesIntraday_then_def)
  have eq: "sortBy quote.date ?xs = sort_key (\<lambda>q. time_of (quote.date q)) ?xs"
    using valid by (rule sortBy_valid)
  have len: "length (sortBy quote.date ?xs) = length kvs" by (simp add: eq)
  have perm: "mset (sortBy quote.date ?xs) = mset ?xs" by (simp add: eq)
  have srt: "sorted (map (\<lambda>q. time_of (quote.date q)) (sortBy quote.date ?xs))"
    unfolding eq by (rule sorted_sort_key)
  have val: "\<forall>q \<in> set (sortBy quote.date ?xs). quote.date q \<noteq> InvalidDate"
    using valid perm by (metis set_mset_mset)
  have stab: "\<forall>d. filter (\<lambda>q. quote.date q = d) (sortBy quote.date ?xs)
                  = filter (\<lambda>q. quote.date q = d) ?xs"
    using valid by (simp add: sortBy_valid_stable)
  from run len perm srt val stab show ?thesis by blast
qed

theorem timeSeriesIntraday_sorted_by_date_witness:
  "\<exists>qs. timeSeriesIntraday_then iso_date (JStr ''IBM'') scenario_B = Inr qs
        \<and> length qs = 3
        \<and> sorted (map (\<lambda>q. time_of (quote.date q)) qs)
        \<and> map (\<lambda>q. (quote.date q, price.close (quote.price q))) qs
            = [(Date 1704067200000, Number (JStr ''99.0'')),
               (Date 1704153600000, Number (JStr ''100.5'')),
               (Date 1704240000000, Number (JStr ''101.0''))]"
proof -
  let ?kvs = "[(''2024-01-02'', JObj [(''4. close'', JStr ''100.5'')]),
               (''2024-01-03'', JObj [(''4. close'', JStr ''101.0'')]),
               (''2024-01-01'', JObj [(''4. close'', JStr ''99.0'')])]"
  have h1: "''hasOwnProperty'' \<notin> set (map fst ?kvs)" by simp
  have d1: "iso_date (JStr ''2024-01-02'') = Date 1704153600000" by code_simp
  have d2: "iso_date (JStr ''2024-01-03'') = Date 1704240000000" by code_simp
  have d3: "iso_date (JStr ''2024-01-01'') = Date 1704067200000" by code_simp
  have h2: "\<forall>(key, bar) \<in> set ?kvs. \<not> nullish bar \<and> iso_date (JStr key) \<noteq> InvalidDate"
    by (simp add: nullish_def d1 d2 d3)
  from timeSeriesIntraday_sorted_by_date [where new_Date = iso_date and kvs = ?kvs, OF h1 h2,
      of "JStr ''IBM''"]
  obtain qs where run: "timeSeriesIntraday_then iso_date (JStr ''IBM'') (JObj ?kvs) = Inr qs"
    and len: "length qs = length ?kvs"
    and srt: "sorted (map (\<lambda>q. time_of (quote.date q)) qs)"
    by blast
  have "timeSeriesIntraday_then iso_date (JStr ''IBM'') (JObj ?kvs)
          = Inr (sortBy quote.date (map (Quote_of iso_date (JStr ''IBM'')) ?kvs))"
    by (simp add: timeSeriesIntraday_then_def nullish_def)
  with run have qs: "qs = sortBy quote.date (map (Quote_of iso_date (JStr ''IBM'')) ?kvs)" by simp
  have vals: "map (\<lambda>q. (quote.date q, price.close (quote.price q))) qs
            = [(Date 1704067200000, Number (JStr ''99.0'')),
               (Date 1704153600000, Number (JStr ''100.5'')),
               (Date 1704240000000, Number (JStr ''101.0''))]"
    unfolding qs by (simp add: sortBy_def Quote_of_def d1 d2 d3 date_gt_def own_get_def)
  from run len srt vals show ?thesis by (simp add: scenario_B_def)
qed

text \<open>
  The whole method: when the requester resolves with such a series, the promise of
  \<open>timeSeriesIntraday\<close> resolves with the sorted quotes.
\<close>

lemma timeSeriesIntraday_resolves_sorted:
  assumes "requester request JSON_parse apiKey
             [(''function'', JStr ''TIME_SERIES_INTRADAY''), (''symbol'', symb), (''interval'', interval)]
             None = Resolved (JObj kvs)"
    and "''hasOwnProperty'' \<notin> set (map fst kvs)"
    and "\<forall>(key, bar) \<in> set kvs. \<not> nullish bar \<and> new_Date (JStr key) \<noteq> InvalidDate"
  shows "\<exists>qs. timeSeriesIntraday request JSON_parse new_Date apiKey symb interval = Resolved qs
           \<and> length qs = length kvs
           \<and> sorted (map (\<lambda>q. time_of (quote.date q)) qs)"
proof -
  from assms(2,3) have nonnull: "\<not> list_ex (\<lambda>(key, bar). nullish bar) kvs"
    by (auto simp: list_ex_iff)
  let ?xs = "map (Quote_of new_Date symb) kvs"
  from assms(3) have valid: "\<forall>q \<in> set ?xs. quote.date q \<noteq> InvalidDate"
    by (auto simp: Quote_of_def)
  have eq: "sortBy quote.date ?xs = sort_key (\<lambda>q. time_of (quote.date q)) ?xs"
    using valid by (rule sortBy_valid)
  have "timeSeriesIntraday request JSON_parse new_Date apiKey symb interval
          = Resolved (sortBy quote.date ?xs)"
    using assms(1,2) nonnull
    by (simp add: timeSeriesIntraday_def then_promise_def timeSeriesIntraday_then_def)
  moreover have "length (sortBy quote.date ?xs) = length kvs" by (simp add: eq)
  moreover have "sorted (map (\<lambda>q. time_of (quote.date q)) (sortBy quote.date ?xs))"
    unfolding eq by (rule sorted_sort_key)
  ultimately show ?thesis by blast
qed

text \<open>
  C5, at an input where the code leaves it: the \<open>then\<close> callback of \<open>_technical\<close>
  returns its array as built, without the \<open>_.sortBy(array, 'date')\<close> that the four
  price-series methods end with. On the keys 2024-01-02, 2024-01-03, 2024-01-01 the
  records come out in that order, which is not ascending by date.
\<close>

theorem technical_then_unsorted:
  "technical_then iso_date scenario_B
     = Inr [JObj [(''date'', JDate (Date 1704153600000)), (''4. close'', JStr ''100.5'')],
            JObj [(''date'', JDate (Date 1704240000000)), (''4. close'', JStr ''101.0'')],
            JObj [(''date'', JDate (Date 1704067200000)), (''4. close'', JStr ''99.0'')]]"
  unfolding scenario_B_def by code_simp

lemma fold_set_own_keeps:
  "k \<notin> set (map fst props) \<Longrightarrow> map_of acc k = Some d \<Longrightarrow>
   map_of (fold (\<lambda>(k', v) newObject. set_own newObject k' v) props acc) k = Some d"
proof (induction props arbitrary: acc)
  case Nil
  then show ?case by simp
next
  case (Cons p props)
  obtain k' v where p: "p = (k', v)" by (cases p)
  with Cons.prems have ne: "k' \<noteq> k" by auto
  have "map_of (set_own acc k' v) k = map_of acc k" for acc
    using ne by (induction acc) auto
  with Cons.prems have "map_of (set_own acc k' v) k = Some d" by simp
  with Cons.IH [of "set_own acc k' v"] Cons.prems p show ?case by simp
qed

text \<open>
  In general the records of \<open>_technical\<close> follow the key order of the payload: the dates
  of the output are the dates of the keys, in enumeration order (for bars that are
  objects without a field named \<open>date\<close>).
\<close>

lemma technical_then_key_order:
  assumes "''hasOwnProperty'' \<notin> set (map fst kvs)"
    and "\<forall>(key, bar) \<in> set kvs. \<not> nullish bar \<and> ''date'' \<notin> set (map fst (own_props bar))"
  shows "\<exists>rs. technical_then new_Date (JObj kvs) = Inr rs
           \<and> map (\<lambda>r. own_get r ''date'') rs = map (\<lambda>(key, bar). JDate (new_Date (JStr key))) kvs"
proof -
  from assms(2) have nonnull: "\<not> list_ex (\<lambda>(key, bar). nullish bar) kvs"
    by (auto simp: list_ex_iff)
  have "own_get (JObj (fold (\<lambda>(k, v) newObject. set_own newObject k v) (own_props bar)
                         [(''date'', JDate (new_Date (JStr key)))])) ''date''
          = JDate (new_Date (JStr key))"
    if "(key, bar) \<in> set kvs" for key bar
  proof -
    from that assms(2) have "''date'' \<notin> set (map fst (own_props bar))" by auto
    then show ?thesis by (simp add: own_get_def fold_set_own_keeps)
  qed
  then show ?thesis
    using assms(1) nonnull by (auto simp: technical_then_def)
qed

section \<open>Properties of the market lookup\<close>

lemma map_of_set_own: "map_of (set_own kvs k v) k = Some v"
  by (induction kvs) auto

lemma own_get_set_own: "own_get (JObj (set_own kvs k v)) k = v"
  by (simp add: own_get_def map_of_set_own)

lemma Market_hours:
  "Market new_Date (JObj kvs) = Inr m \<Longrightarrow> parseHours new_Date (own_get (JObj kvs) ''hours'') = Inr (market.hours m)"
  by (auto simp: Market_def nullish_def split: sum.splits)

text \<open>
  C8, as stated: when the first payload has no reference to follow, the success callback
  would receive that payload unmerged, and no second request would be made. The code asks
  for \<open>market.todays_hours\<close> all the same, with an undefined uri, and the promise ends
  with the outcome of that second request: here a rejection.
\<close>

theorem getByMIC_no_reference_counterexample:
  "getByMIC demo_request (classify json_parse) iso_date ''XNYS''
     = (Rejected (Failure transport ''options.uri is a required argument''),
        [JStr ''https://api.robinhood.com/markets/XNYS/'', JUndefined])"
  unfolding xnys_body_def demo_request_def market_uri_def getByMIC_def by code_simp

text \<open>
  C8, amended: after a first success with an object payload, exactly one more request
  is made, to the payload's \<open>todays_hours\<close>, whether the payload has that field or not
  (the uri is then undefined). Its outcome goes through the same \<open>handleResponse\<close>. On a
  failure the promise is rejected with that failure. On a success whose payload is neither
  \<open>null\<close> nor \<open>undefined\<close>, that payload is stored in the first under \<open>hours\<close> and
  the promise resolves with the Market built from the merged payload. On a success whose
  payload is \<open>null\<close> or \<open>undefined\<close>, building the Market throws a TypeError
  (\<open>parseHours\<close> reads a field of it) that nothing catches, and the promise is never
  settled. The promise never resolves in another way: never with the unmerged payload.
\<close>

theorem getByMIC_follows_todays_hours:
  assumes "handleResponse (request (market_uri code)) = Inr (JObj kvs)"
  shows "snd (getByMIC request handleResponse new_Date code)
           = [market_uri code, own_get (JObj kvs) ''todays_hours'']
       \<and> (\<forall>failure. handleResponse (request (own_get (JObj kvs) ''todays_hours'')) = Inl failure \<longrightarrow>
             fst (getByMIC request handleResponse new_Date code) = Rejected failure)
       \<and> (\<forall>h. handleResponse (request (own_get (JObj kvs) ''todays_hours'')) = Inr h \<and> \<not> nullish h \<longrightarrow>
             (\<exists>m. fst (getByMIC request handleResponse new_Date code) = Resolved m
                \<and> Market new_Date (JObj (set_own kvs ''hours'' h)) = Inr m
                \<and> parseHours new_Date h = Inr (market.hours m)))
       \<and> (\<forall>h. handleResponse (request (own_get (JObj kvs) ''todays_hours'')) = Inr h \<and> nullish h \<longrightarrow>
             fst (getByMIC request handleResponse new_Date code) = Uncaught TypeError)
       \<and> (\<forall>m. fst (getByMIC request handleResponse new_Date code) = Resolved m \<longrightarrow>
             (\<exists>h. handleResponse (request (own_get (JObj kvs) ''todays_hours'')) = Inr h
                \<and> parseHours new_Date h = Inr (market.hours m)))"
proof (intro conjI allI impI)
  let ?ref = "own_get (JObj kvs) ''todays_hours''"
  have getp: "get_prop (JObj kvs) ''todays_hours'' = Inr ?ref"
    by (simp add: get_prop_def nullish_def)
  show "snd (getByMIC request handleResponse new_Date code) = [market_uri code, ?ref]"
    using assms getp by (simp add: getByMIC_def split: sum.splits)
  show "fst (getByMIC request handleResponse new_Date code) = Rejected failure"
    if "handleResponse (request ?ref) = Inl failure" for failure
    using assms getp that by (simp add: getByMIC_def)
  show "\<exists>m. fst (getByMIC request handleResponse new_Date code) = Resolved m
          \<and> Market new_Date (JObj (set_own kvs ''hours'' h)) = Inr m
          \<and> parseHours new_Date h = Inr (market.hours m)"
    if "handleResponse (request ?ref) = Inr h \<and> \<not> nullish h" for h
  proof -
    from that obtain hs where ph: "parseHours new_Date h = Inr hs"
      by (auto simp: parseHours_def)
    then obtain m where m: "Market new_Date (JObj (set_own kvs ''hours'' h)) = Inr m"
      by (simp add: Market_def nullish_def own_get_set_own)
    from Market_hours [OF m] have "parseHours new_Date h = Inr (market.hours m)"
      by (simp add: own_get_set_own)
    with assms getp that m show ?thesis by (simp add: getByMIC_def set_prop_def)
  qed
  show "fst (getByMIC request handleResponse new_Date code) = Uncaught TypeError"
    if "handleResponse (request ?ref) = Inr h \<and> nullish h" for h
  proof -
    from that have "Market new_Date (JObj (set_own kvs ''hours'' h)) = Inl TypeError"
      by (simp add: Market_def parseHours_def own_get_set_own nullish_def)
    with assms getp that show ?thesis by (simp add: getByMIC_def set_prop_def)
  qed
  show "\<exists>h. handleResponse (request ?ref) = Inr h \<and> parseHours new_Date h = Inr (market.hours m)"
    if res: "fst (getByMIC request handleResponse new_Date code) = Resolved m" for m
  proof (cases "handleResponse (request ?ref)")
    case (Inl failure)
    with assms getp res show ?thesis by (simp add: getByMIC_def)
  next
    case (Inr h)
    with assms getp res have "Market new_Date (JObj (set_own kvs ''hours'' h)) = Inr m"
      by (simp add: getByMIC_def set_prop_def split: sum.splits)
    from Market_hours [OF this] Inr show ?thesis by (simp add: own_get_set_own)
  qed
qed

theorem getByMIC_follows_todays_hours_witness:
  "snd (getByMIC demo_request (classify json_parse) iso_date ''XNAS'')
     = [JStr ''https://api.robinhood.com/markets/XNAS/'',
        JStr ''https://api.robinhood.com/markets/XNAS/hours/2024-03-04/'']
   \<and> (\<exists>m. fst (getByMIC demo_request (classify json_parse) iso_date ''XNAS'') = Resolved m
          \<and> isOpen (market.hours m)
          \<and> hours.open (market.hours m) = JDate (Date 1709562600000)
          \<and> hours.close (market.hours m) = JDate (Date 1709586000000)
          \<and> market.mic m = String_of (JStr ''XNAS''))"
proof -
  let ?uri = "JStr ''https://api.robinhood.com/markets/XNAS/hours/2024-03-04/''"
  let ?kvs = "[(''mic'', JStr ''XNAS''), (''name'', JStr ''NASDAQ''),
               (''todays_hours'', ?uri)]"
  let ?h = "JObj [(''is_open'', JBool True), (''opens_at'', JStr ''2024-03-04T14:30:00Z''),
                  (''closes_at'', JStr ''2024-03-04T21:00:00Z''), (''extended_opens_at'', JNull),
                  (''extended_closes_at'', JNull), (''date'', JStr ''2024-03-04'')]"
  have first: "classify json_parse (demo_request (market_uri ''XNAS'')) = Inr (JObj ?kvs)"
    unfolding demo_request_def market_uri_def xnas_body_def by code_simp
  have ref: "own_get (JObj ?kvs) ''todays_hours'' = ?uri"
    by (simp add: own_get_def)
  have second: "classify json_parse (demo_request ?uri) = Inr ?h"
    unfolding demo_request_def market_uri_def xnas_hours_body_def by code_simp
  have hs: "parseHours iso_date ?h
              = Inr \<lparr>isOpen = True, close = JDate (Date 1709586000000),
                     open = JDate (Date 1709562600000), extendedOpen = JNull, extendedClose = JNull,
                     date = Date 1709510400000, nextTradingDay = String_of JUndefined,
                     previousTradingDay = String_of JUndefined\<rparr>"
    by code_simp
  note r = getByMIC_follows_todays_hours
             [where handleResponse = "classify json_parse" and request = demo_request
                and code = "''XNAS''" and kvs = ?kvs and new_Date = iso_date, OF first]
  from r have log: "snd (getByMIC demo_request (classify json_parse) iso_date ''XNAS'')
                      = [market_uri ''XNAS'', ?uri]"
    by (simp only: ref)
  from r have "\<forall>h. classify json_parse (demo_request (own_get (JObj ?kvs) ''todays_hours'')) = Inr h
                    \<and> \<not> nullish h \<longrightarrow>
             (\<exists>m. fst (getByMIC demo_request (classify json_parse) iso_date ''XNAS'') = Resolved m
                \<and> Market iso_date (JObj (set_own ?kvs ''hours'' h)) = Inr m
                \<and> parseHours iso_date h = Inr (market.hours m))"
    by blast
  then have "classify json_parse (demo_request ?uri) = Inr ?h \<and> \<not> nullish ?h \<longrightarrow>
             (\<exists>m. fst (getByMIC demo_request (classify json_parse) iso_date ''XNAS'') = Resolved m
                \<and> Market iso_date (JObj (set_own ?kvs ''hours'' ?h)) = Inr m
                \<and> parseHours iso_date ?h = Inr (market.hours m))"
    unfolding ref by (rule spec)
  with second obtain m
    where m: "fst (getByMIC demo_request (classify json_parse) iso_date ''XNAS'') = Resolved m"
      and mk: "Market iso_date (JObj (set_own ?kvs ''hours'' ?h)) = Inr m"
      and ph: "parseHours iso_date ?h = Inr (market.hours m)"
    by (auto simp: nullish_def)
  from ph hs have "market.hours m = \<lparr>isOpen = True, close = JDate (Date 1709586000000),
                     open = JDate (Date 1709562600000), extendedOpen = JNull, extendedClose = JNull,
                     date = Date 1709510400000, nextTradingDay = String_of JUndefined,
                     previousTradingDay = String_of JUndefined\<rparr>"
    by simp
  moreover from mk have "market.mic m = String_of (JStr ''XNAS'')"
    by (auto simp: Market_def nullish_def own_get_def split: sum.splits)
  ultimately show ?thesis using log m by (simp add: market_uri_def)
qed

text \<open>
  The second success with a \<open>null\<close> payload, run: the hours endpoint answers 200 with
  the text \<open>null\<close>, and the promise of \<open>getByMIC\<close> is left unsettled by the TypeError.
\<close>

lemma getByMIC_null_hours_example:
  "getByMIC null_hours_request (classify json_parse) iso_date ''XNAS''
     = (Uncaught TypeError,
        [JStr ''https://api.robinhood.com/markets/XNAS/'',
         JStr ''https://api.robinhood.com/markets/XNAS/hours/2024-03-04/''])"
  unfolding xnas_body_def null_hours_request_def market_uri_def getByMIC_def by code_simp

section \<open>Properties of the search for the next session\<close>

lemma whilst_next_settled:
  assumes "whilst_next edge getHoursOn now days nxt = Some y"
  shows "settled_by edge getHoursOn now days nxt y"
proof (rule whilst_next.raw_induct [where P = settled_by, OF _ assms])
  fix f :: "(hours \<Rightarrow> jsval) \<Rightarrow> (int \<Rightarrow> ('a, hours) promise) \<Rightarrow> int \<Rightarrow> int \<Rightarrow> jsval \<Rightarrow>
            ('a library_error, jsval) promise option"
  fix e g n d nx y'
  assume ih: "\<And>e g n d nx y. f e g n d nx = Some y \<Longrightarrow> settled_by e g n d nx y"
  assume body: "(if nx = JNull
      then case g (n + d * 86400000) of
             Resolved hours' \<Rightarrow> f e g n d (if isOpen hours' then e hours' else nx)
           | Rejected error \<Rightarrow> Some (Rejected (LibraryError_of error))
           | Uncaught e \<Rightarrow> Some (Uncaught e)
      else Some (Resolved nx)) = Some y'"
  show "settled_by e g n d nx y'"
  proof (cases "nx = JNull")
    case False
    with body show ?thesis by (simp add: settled_by_def)
  next
    case True
    show ?thesis
    proof (cases "g (n + d * 86400000)")
      case (Resolved h)
      with True body have rec: "f e g n d (if isOpen h then e h else JNull) = Some y'"
        by (cases "isOpen h") simp_all
      from ih [OF rec] Resolved True show ?thesis
        by (cases "isOpen h"; cases "e h = JNull") (simp_all add: settled_by_def)
    next
      case (Rejected r)
      with True body show ?thesis by (simp add: settled_by_def)
    next
      case (Uncaught x)
      with True body show ?thesis by (simp add: settled_by_def)
    qed
  qed
qed

text \<open>
  The loop asks for one date only, \<open>now + days\<close>: \<open>days\<close> is never increased. When that
  day is open (and its edge is set), the loop ends with the edge.
\<close>

lemma whilst_next_open_day:
  assumes "getHoursOn (now + days * 86400000) = Resolved h" and "isOpen h" and "edge h \<noteq> JNull"
  shows "whilst_next edge getHoursOn now days JNull = Some (Resolved (edge h))"
proof -
  have "whilst_next edge getHoursOn now days JNull = whilst_next edge getHoursOn now days (edge h)"
    using assms by (subst whilst_next.simps) simp
  also have "\<dots> = Some (Resolved (edge h))"
    using assms(3) by (subst whilst_next.simps) simp
  finally show ?thesis .
qed

text \<open>When that day is closed, the loop asks for it again and again, and never ends.\<close>

lemma whilst_next_closed_day:
  assumes "getHoursOn (now + days * 86400000) = Resolved h" and "\<not> isOpen h \<or> edge h = JNull"
  shows "whilst_next edge getHoursOn now days JNull = None"
proof (cases "whilst_next edge getHoursOn now days JNull")
  case None
  then show ?thesis .
next
  case (Some y)
  from whilst_next_settled [OF Some] assms show ?thesis by (auto simp: settled_by_def)
qed

lemma whilst_next_failed_day:
  assumes "getHoursOn (now + days * 86400000) = Rejected error"
  shows "whilst_next edge getHoursOn now days JNull = Some (Rejected (LibraryError_of error))"
  using assms by (subst whilst_next.simps) simp

text \<open>The starting offset: one day when the reference instant is after today's edge.\<close>

lemma getNextOpen_start:
  "getNextOpen this getHoursOn now =
     whilst_next hours.open getHoursOn now
       (case hours.open (market.hours this) of
          JDate (Date t) \<Rightarrow> if t < now then 1 else 0
        | _ \<Rightarrow> 0) JNull"
  by (simp add: getNextOpen_def isAfter_def split: jsval.splits jsdate.splits)

text \<open>
  C1, at the input where the code leaves it (Scenario A): the market is closed on
  2024-03-01, the reference instant is 09:00 that day, and the first open day is
  2024-03-04, from 09:30. The search starts at today plus 0 days, finds the day closed,
  and asks for the same day again without end: its promise is never settled, where the
  claim has it return 2024-03-04 09:30.
\<close>

theorem findNextSession_scenario_A_never_settles:
  "findNextSession open_edge scenario_A_market scenario_A_getHoursOn scenario_A_now = None
   \<and> findNextSession close_edge scenario_A_market scenario_A_getHoursOn scenario_A_now = None
   \<and> scenario_A_getHoursOn (scenario_A_now + 3 * 86400000)
       = Resolved (open_day (days_from_civil 2024 3 4))
   \<and> hours.open (open_day (days_from_civil 2024 3 4)) = JDate (Date 1709544600000)"
proof (intro conjI)
  have today: "scenario_A_getHoursOn (scenario_A_now + 0 * 86400000)
                 = Resolved (closed_day (days_from_civil 2024 3 1))"
    by (simp add: scenario_A_getHoursOn_def scenario_A_now_def day_ms_def days_from_civil_def)
  have start: "\<not> isAfter scenario_A_now (hours.open (market.hours scenario_A_market))"
    by (simp add: scenario_A_market_def market_on_def closed_day_def isAfter_def)
  have "whilst_next hours.open scenario_A_getHoursOn scenario_A_now 0 JNull = None"
    using today by (rule whilst_next_closed_day) (simp add: closed_day_def)
  with start show "findNextSession open_edge scenario_A_market scenario_A_getHoursOn scenario_A_now = None"
    by (simp add: findNextSession_def getNextOpen_def)
  have start': "\<not> isAfter scenario_A_now (hours.close (market.hours scenario_A_market))"
    by (simp add: scenario_A_market_def market_on_def closed_day_def isAfter_def)
  have "whilst_next hours.close scenario_A_getHoursOn scenario_A_now 0 JNull = None"
    using today by (rule whilst_next_closed_day) (simp add: closed_day_def)
  with start' show "findNextSession close_edge scenario_A_market scenario_A_getHoursOn scenario_A_now = None"
    by (simp add: findNextSession_def getNextClose_def)
  show "scenario_A_getHoursOn (scenario_A_now + 3 * 86400000)
          = Resolved (open_day (days_from_civil 2024 3 4))"
    by (simp add: scenario_A_getHoursOn_def scenario_A_now_def day_ms_def days_from_civil_def)
  show "hours.open (open_day (days_from_civil 2024 3 4)) = JDate (Date 1709544600000)"
    by (simp add: open_day_def day_ms_def days_from_civil_def)
qed

text \<open>
  When the day the search starts at is open, the search returns that day's instant: on
  Monday 2024-03-04 at 09:00, the open of that day.
\<close>

lemma findNextSession_open_today:
  "findNextSession open_edge monday_market scenario_A_getHoursOn monday_9am
     = Some (Resolved (JDate (Date 1709544600000)))"
proof -
  have today: "scenario_A_getHoursOn (monday_9am + 0 * 86400000)
                 = Resolved (open_day (days_from_civil 2024 3 4))"
    by (simp add: scenario_A_getHoursOn_def monday_9am_def day_ms_def days_from_civil_def)
  have start: "\<not> isAfter monday_9am (hours.open (market.hours monday_market))"
    by (simp add: monday_market_def monday_9am_def market_on_def open_day_def isAfter_def
        day_ms_def days_from_civil_def)
  have "whilst_next hours.open scenario_A_getHoursOn monday_9am 0 JNull
          = Some (Resolved (hours.open (open_day (days_from_civil 2024 3 4))))"
    using today by (rule whilst_next_open_day) (simp_all add: open_day_def)
  with start show ?thesis
    by (simp add: findNextSession_def getNextOpen_def open_day_def day_ms_def days_from_civil_def)
qed

lemma findNextSession_first_date_only:
  assumes "findNextSession e this getHoursOn now = Some y"
  shows "settled_by (case e of open_edge \<Rightarrow> hours.open | close_edge \<Rightarrow> hours.close) getHoursOn now
           (if isAfter now ((case e of open_edge \<Rightarrow> hours.open | close_edge \<Rightarrow> hours.close)
                              (market.hours this)) then 1 else 0)
           JNull y"
  using assms
  by (cases e) (auto simp: findNextSession_def getNextOpen_def getNextClose_def
      intro: whilst_next_settled)


end
